theory Spec2Isabelle
  imports Main "HOL-Library.Multiset"
begin

section \<open>Values: parsed JSON, stored documents\<close>

text \<open>
  \<open>express.json()\<close> leaves in \<open>req.body\<close> what \<open>JSON.parse\<close> built: a tree of
  null, booleans, numbers, strings, arrays and objects. Numbers are modelled by the
  integers (the safe-integer range of a double); fractional numbers are outside the model.
\<close>

datatype json =
    JNull
  | JBool bool
  | JNum int
  | JStr string
  | JArr "json list"
  | JObj "(string \<times> json) list"

text \<open>The time value of a JavaScript \<open>Date\<close>: milliseconds since the epoch, or \<open>NaN\<close>
  (an "Invalid Date").\<close>

datatype timeval = NaN | Ms int

type_synonym oid = int

text \<open>
  A field of a document handed to the driver is a JSON value, a \<open>Date\<close> (the handlers
  write \<open>createdAt\<close>, \<open>startDate\<close>, \<open>endDate\<close>) or an \<open>ObjectId\<close> (the driver writes
  \<open>_id\<close>). An \<open>ObjectId\<close> is its twelve bytes, read as a number.
\<close>

datatype bson = BJson json | BDate timeval | BObjectId oid

type_synonym doc = "(string \<times> bson) list"

type_synonym body = "(string \<times> json) list"

text \<open>Reading a property (\<open>obj.k\<close>): \<open>None\<close> is JavaScript's \<open>undefined\<close>.\<close>

definition jget :: "body \<Rightarrow> string \<Rightarrow> json option" where
  "jget b k = map_of b k"

definition bget :: "doc \<Rightarrow> string \<Rightarrow> bson option" where
  "bget d k = map_of d k"

text \<open>Writing a property (\<open>obj.k = v\<close>): an existing property keeps its place, a new one
  is added at the end.\<close>

fun bset :: "string \<Rightarrow> bson \<Rightarrow> doc \<Rightarrow> doc" where
  "bset k v [] = [(k, v)]"
| "bset k v ((k', v') # d) = (if k' = k then (k, v) # d else (k', v') # bset k v d)"

text \<open>The request body seen as a document: every value is a JSON value.\<close>

definition as_doc :: "body \<Rightarrow> doc" where
  "as_doc b = map (\<lambda>(k, v). (k, BJson v)) b"

text \<open>JavaScript's \<open>ToBoolean\<close> on what a property read of the parsed body gives:
  \<open>!x\<close> holds for \<open>undefined\<close>, \<open>null\<close>, \<open>false\<close>, \<open>0\<close> and the empty string.\<close>

fun truthy :: "json option \<Rightarrow> bool" where
  "truthy None = False"
| "truthy (Some JNull) = False"
| "truthy (Some (JBool b)) = b"
| "truthy (Some (JNum n)) = (n \<noteq> 0)"
| "truthy (Some (JStr s)) = (s \<noteq> [])"
| "truthy (Some (JArr xs)) = True"
| "truthy (Some (JObj kvs)) = True"

section \<open>The Date constructor\<close>

text \<open>
  \<open>new Date(v)\<close> with one argument: \<open>ToPrimitive(v)\<close>; a string is given to
  \<open>Date.parse\<close>, anything else goes through \<open>ToNumber\<close> and \<open>TimeClip\<close>.
  \<open>Date.parse\<close> is defined by the engine for everything outside the ISO format, so it
  is a parameter; it returns \<open>NaN\<close> for a string it does not recognise and never throws.
  The constructor throws only when \<open>ToPrimitive\<close> does: for a parsed JSON value that is an
  object with an own property \<open>toString\<close> (its value is not callable, and
  \<open>Object.prototype.valueOf\<close> returns the object itself), also inside an array, whose
  \<open>toString\<close> joins the strings of its elements.
\<close>

fun show_nat :: "nat \<Rightarrow> string" where
  "show_nat n = (if n < 10 then [char_of (48 + n)]
                 else show_nat (n div 10) @ [char_of (48 + n mod 10)])"

definition show_int :: "int \<Rightarrow> string" where
  "show_int i = (if i < 0 then CHR ''-'' # show_nat (nat (- i)) else show_nat (nat i))"

text \<open>\<open>Array.prototype.join\<close> on the elements; \<open>None\<close> is a thrown \<open>TypeError\<close>.\<close>

fun elem_str :: "json \<Rightarrow> string option"
  and join_str :: "json list \<Rightarrow> string option" where
  "elem_str JNull = Some []"
| "elem_str (JBool b) = Some (if b then ''true'' else ''false'')"
| "elem_str (JNum n) = Some (show_int n)"
| "elem_str (JStr s) = Some s"
| "elem_str (JArr xs) = join_str xs"
| "elem_str (JObj kvs) =
     (if ''toString'' \<in> fst ` set kvs then None else Some ''[object Object]'')"
| "join_str [] = Some []"
| "join_str [x] = elem_str x"
| "join_str (x # y # ys) =
     (case elem_str x of None \<Rightarrow> None
      | Some s \<Rightarrow> (case join_str (y # ys) of None \<Rightarrow> None
                   | Some t \<Rightarrow> Some (s @ '','' @ t)))"

definition time_clip :: "int \<Rightarrow> timeval" where
  "time_clip n = (if \<bar>n\<bar> \<le> 8640000000000000 then Ms n else NaN)"

text \<open>The time value of \<open>new Date(v)\<close> for what a property read of the body gives;
  \<open>None\<close> is a thrown \<open>TypeError\<close>. \<open>new Date(undefined)\<close> is an Invalid Date.\<close>

fun new_Date :: "(string \<Rightarrow> timeval) \<Rightarrow> json option \<Rightarrow> timeval option" where
  "new_Date parse None = Some NaN"
| "new_Date parse (Some JNull) = Some (Ms 0)"
| "new_Date parse (Some (JBool b)) = Some (Ms (if b then 1 else 0))"
| "new_Date parse (Some (JNum n)) = Some (time_clip n)"
| "new_Date parse (Some (JStr s)) = Some (parse s)"
| "new_Date parse (Some (JArr xs)) = map_option parse (join_str xs)"
| "new_Date parse (Some (JObj kvs)) =
     (if ''toString'' \<in> fst ` set kvs then None else Some (parse ''[object Object]''))"

section \<open>The environment of one request\<close>

text \<open>
  What a handler run takes from outside the source: the clock (\<open>new Date()\<close>), the
  engine's \<open>Date.parse\<close>, the driver's \<open>ObjectId.isValid\<close> and \<open>new ObjectId(id)\<close>
  (which strings are accepted depends on the driver's version), the \<open>ObjectId\<close> the
  driver generates for a document without \<open>_id\<close>, and whether the persistence call
  throws for a reason outside the program (connection loss, a command the server
  rejects): \<open>db_failure\<close> gives the error's message for the call that fails.
\<close>

datatype coll = Vehicles | Bookings

datatype pcall =
    Find coll "string option"
  | FindOne coll oid
  | InsertOne coll doc
  | UpdateOne coll oid doc
  | DeleteOne coll oid

record env =
  Date_now :: int
  Date_parse :: "string \<Rightarrow> timeval"
  ObjectId_isValid :: "string \<Rightarrow> bool"
  ObjectId_new :: "string \<Rightarrow> oid"
  createPk :: oid
  db_failure :: "pcall \<Rightarrow> string option"

section \<open>The store\<close>

text \<open>
  The two collections of \<open>run()\<close>, each a list of documents in insertion order, and the
  persistence calls issued so far (kept to state what a handler does not call).
\<close>

record db =
  vehiclesCollection :: "doc list"
  bookingsCollection :: "doc list"
  calls :: "pcall list"

fun docs_of :: "coll \<Rightarrow> db \<Rightarrow> doc list" where
  "docs_of Vehicles s = vehiclesCollection s"
| "docs_of Bookings s = bookingsCollection s"

fun put_docs :: "coll \<Rightarrow> doc list \<Rightarrow> db \<Rightarrow> db" where
  "put_docs Vehicles ds s = s\<lparr>vehiclesCollection := ds\<rparr>"
| "put_docs Bookings ds s = s\<lparr>bookingsCollection := ds\<rparr>"

definition issue :: "pcall \<Rightarrow> db \<Rightarrow> db" where
  "issue c s = s\<lparr>calls := calls s @ [c]\<rparr>"

text \<open>
  What the driver writes for a field value: an Invalid Date is serialised as the epoch
  (its time value \<open>NaN\<close> becomes 0); every other value of this program is written as it
  is.
\<close>

fun wire :: "bson \<Rightarrow> bson" where
  "wire (BDate NaN) = BDate (Ms 0)"
| "wire v = v"

definition serialized :: "doc \<Rightarrow> doc" where
  "serialized d = map (\<lambda>(k, v). (k, wire v)) d"

text \<open>
  \<open>insertOne(doc)\<close>: the driver gives the document an \<open>_id\<close> when \<open>doc._id == null\<close>
  (absent or null) and keeps the document's own \<open>_id\<close> otherwise; the server refuses a
  document whose \<open>_id\<close> is already in the collection (duplicate key), and stores the
  serialised document otherwise. \<open>insert_error\<close> is the message of the error the call
  throws, if it throws; the result of the call is that message (\<open>Inl\<close>) or \<open>insertedId\<close>.
\<close>

definition with_id :: "env \<Rightarrow> doc \<Rightarrow> doc" where
  "with_id e d =
     (if bget d ''_id'' = None \<or> bget d ''_id'' = Some (BJson JNull)
      then bset ''_id'' (BObjectId (createPk e)) d else d)"

definition insert_error :: "env \<Rightarrow> coll \<Rightarrow> doc \<Rightarrow> db \<Rightarrow> string option" where
  "insert_error e c d' s =
     (case db_failure e (InsertOne c d') of
        Some m \<Rightarrow> Some m
      | None \<Rightarrow>
          if bget (serialized d') ''_id'' \<in> (\<lambda>x. bget x ''_id'') ` set (docs_of c s)
          then Some ''E11000 duplicate key error'' else None)"

definition insertOne :: "env \<Rightarrow> coll \<Rightarrow> doc \<Rightarrow> db \<Rightarrow> (string + bson option) \<times> db" where
  "insertOne e c d s =
     (let d' = with_id e d; s' = issue (InsertOne c d') s
      in case insert_error e c d' s of
           Some m \<Rightarrow> (Inl m, s')
         | None \<Rightarrow> (Inr (bget d' ''_id''), put_docs c (docs_of c s @ [serialized d']) s'))"

text \<open>The filter \<open>{ _id: new ObjectId(id) }\<close>.\<close>

definition has_id :: "oid \<Rightarrow> doc \<Rightarrow> bool" where
  "has_id i d = (bget d ''_id'' = Some (BObjectId i))"

text \<open>The filter \<open>{ userEmail: email }\<close> with a string: the field is that string, or an
  array with that string among its elements.\<close>

fun eq_match :: "string \<Rightarrow> bson option \<Rightarrow> bool" where
  "eq_match v (Some (BJson (JStr s))) = (s = v)"
| "eq_match v (Some (BJson (JArr xs))) = (JStr v \<in> set xs)"
| "eq_match v _ = False"

fun matches :: "string option \<Rightarrow> doc \<Rightarrow> bool" where
  "matches None d = True"
| "matches (Some email) d = eq_match email (bget d ''userEmail'')"

text \<open>
  \<open>sort({ createdAt: -1 })\<close>. The key of a document is the time of its \<open>createdAt\<close>
  when that is a valid \<open>Date\<close>; every other value a document of this program can hold
  there sorts below all dates, and the server's order among those is not modelled
  (they compare equal here). For equal keys the store promises no order; here such
  documents keep theirs.
\<close>

definition created_key :: "doc \<Rightarrow> int option" where
  "created_key d = (case bget d ''createdAt'' of Some (BDate (Ms t)) \<Rightarrow> Some t | _ \<Rightarrow> None)"

fun key_ge :: "int option \<Rightarrow> int option \<Rightarrow> bool" where
  "key_ge _ None = True"
| "key_ge None (Some b) = False"
| "key_ge (Some a) (Some b) = (b \<le> a)"

fun insert_desc :: "doc \<Rightarrow> doc list \<Rightarrow> doc list" where
  "insert_desc d [] = [d]"
| "insert_desc d (x # xs) =
     (if key_ge (created_key d) (created_key x) then d # x # xs else x # insert_desc d xs)"

fun sort_desc :: "doc list \<Rightarrow> doc list" where
  "sort_desc [] = []"
| "sort_desc (d # ds) = insert_desc d (sort_desc ds)"

definition find_sorted :: "env \<Rightarrow> coll \<Rightarrow> string option \<Rightarrow> db \<Rightarrow> (string + doc list) \<times> db" where
  "find_sorted e c q s =
     (let s' = issue (Find c q) s
      in case db_failure e (Find c q) of
           Some m \<Rightarrow> (Inl m, s')
         | None \<Rightarrow> (Inr (sort_desc (filter (matches q) (docs_of c s))), s'))"

definition findOne :: "env \<Rightarrow> coll \<Rightarrow> oid \<Rightarrow> db \<Rightarrow> (string + doc option) \<times> db" where
  "findOne e c i s =
     (let s' = issue (FindOne c i) s
      in case db_failure e (FindOne c i) of
           Some m \<Rightarrow> (Inl m, s')
         | None \<Rightarrow> (Inr (find (has_id i) (docs_of c s)), s'))"

text \<open>
  \<open>updateOne(filter, { $set: fields })\<close> changes the first matching document. A
  value \<open>undefined\<close> in \<open>$set\<close> has been serialised as null by then (the client is made
  without \<open>ignoreUndefined\<close>), so \<open>fields\<close> is a document. The result is
  \<open>(matchedCount, modifiedCount)\<close>; a document that \<open>$set\<close> leaves as it was is matched
  and not modified.
\<close>

fun apply_set :: "doc \<Rightarrow> doc \<Rightarrow> doc" where
  "apply_set [] d = d"
| "apply_set ((k, v) # fs) d = apply_set fs (bset k v d)"

fun update_first :: "oid \<Rightarrow> doc \<Rightarrow> doc list \<Rightarrow> doc list" where
  "update_first i fs [] = []"
| "update_first i fs (d # ds) =
     (if has_id i d then apply_set fs d # ds else d # update_first i fs ds)"

definition updateOne :: "env \<Rightarrow> coll \<Rightarrow> oid \<Rightarrow> doc \<Rightarrow> db \<Rightarrow> (string + nat \<times> nat) \<times> db" where
  "updateOne e c i fs s =
     (let s' = issue (UpdateOne c i fs) s
      in case db_failure e (UpdateOne c i fs) of
           Some m \<Rightarrow> (Inl m, s')
         | None \<Rightarrow>
             (case find (has_id i) (docs_of c s) of
                None \<Rightarrow> (Inr (0, 0), s')
              | Some d \<Rightarrow>
                  (Inr (1, if apply_set fs d = d then 0 else 1),
                   put_docs c (update_first i fs (docs_of c s)) s')))"

fun delete_first :: "oid \<Rightarrow> doc list \<Rightarrow> doc list" where
  "delete_first i [] = []"
| "delete_first i (d # ds) = (if has_id i d then ds else d # delete_first i ds)"

definition deleteOne :: "env \<Rightarrow> coll \<Rightarrow> oid \<Rightarrow> db \<Rightarrow> (string + nat) \<times> db" where
  "deleteOne e c i s =
     (let s' = issue (DeleteOne c i) s
      in case db_failure e (DeleteOne c i) of
           Some m \<Rightarrow> (Inl m, s')
         | None \<Rightarrow>
             (case find (has_id i) (docs_of c s) of
                None \<Rightarrow> (Inr 0, s')
              | Some d \<Rightarrow> (Inr 1, put_docs c (delete_first i (docs_of c s)) s')))"

section \<open>Responses\<close>

text \<open>\<open>res.send(text)\<close>, \<open>res.json(object)\<close> and \<open>res.json(array of documents)\<close>, with the
  status set by \<open>res.status\<close> (200 when the handler sets none).\<close>

datatype payload = Text string | Obj doc | Arr "doc list"

record response =
  status :: nat
  payload :: payload

definition json_error :: "nat \<Rightarrow> string \<Rightarrow> response" where
  "json_error code msg =
     \<lparr>status = code,
      payload = Obj [(''success'', BJson (JBool False)), (''error'', BJson (JStr msg))]\<rparr>"

definition json_ok :: "string \<Rightarrow> (string \<times> bson) list \<Rightarrow> response" where
  "json_ok msg extra =
     \<lparr>status = 200,
      payload = Obj ([(''success'', BJson (JBool True)), (''message'', BJson (JStr msg))] @ extra)\<rparr>"

text \<open>A value of the handler placed in a response or a \<open>$set\<close>: \<open>undefined\<close> is
  serialised as null by the driver, and an \<open>insertedId\<close> is never \<open>undefined\<close>.\<close>

fun or_null :: "json option \<Rightarrow> bson" where
  "or_null None = BJson JNull"
| "or_null (Some v) = BJson v"

fun id_value :: "bson option \<Rightarrow> bson" where
  "id_value None = BJson JNull"
| "id_value (Some v) = v"

section \<open>The handlers\<close>

text \<open>
  The repository holds two copies of the server: \<open>src/server.js\<close> and
  \<open>src/unnamed/part_000\<close>. They differ in the message of \<open>GET /vehicles\<close> on failure and
  in \<open>POST /bookings\<close>; every other handler is the same in both and is modelled once.
  A handler takes the environment, its request data and the store, and gives the
  response and the store afterwards; its \<open>catch\<close> branch is the \<open>Inl\<close> case of the
  persistence call.
\<close>

definition get_root :: "db \<Rightarrow> response \<times> db" where
  "get_root s =
     (\<lparr>status = 200,
       payload = Text (''TravelEase server is running ''
                       @ [CHR 0xF0, CHR 0x9F, CHR 0x9A, CHR 0x97])\<rparr>, s)"

text \<open>\<open>GET /vehicles\<close>, \<open>src/unnamed/part_000\<close> lines 41-52.\<close>

definition get_vehicles :: "env \<Rightarrow> db \<Rightarrow> response \<times> db" where
  "get_vehicles e s =
     (case find_sorted e Vehicles None s of
        (Inl err, s') \<Rightarrow> (json_error 500 ''Failed to fetch vehicles'', s')
      | (Inr vehicles, s') \<Rightarrow> (\<lparr>status = 200, payload = Arr vehicles\<rparr>, s'))"

text \<open>\<open>GET /vehicles\<close>, \<open>src/server.js\<close> lines 39-51.\<close>

definition get_vehicles_server_js :: "env \<Rightarrow> db \<Rightarrow> response \<times> db" where
  "get_vehicles_server_js e s =
     (case find_sorted e Vehicles None s of
        (Inl err, s') \<Rightarrow> (json_error 500 ''Failed to fetch Vehicles'', s')
      | (Inr vehicles, s') \<Rightarrow> (\<lparr>status = 200, payload = Arr vehicles\<rparr>, s'))"

text \<open>\<open>POST /vehicles\<close>, \<open>src/server.js\<close> lines 52-77, \<open>part_000\<close> lines 55-81.\<close>

definition post_vehicles :: "env \<Rightarrow> body \<Rightarrow> db \<Rightarrow> response \<times> db" where
  "post_vehicles e vehicleData s =
     (if \<not> truthy (jget vehicleData ''vehicleName'') \<or> \<not> truthy (jget vehicleData ''userEmail'')
      then (json_error 400 ''vehicleName and userEmail are required'', s)
      else
        (case insertOne e Vehicles
                (bset ''createdAt'' (BDate (Ms (Date_now e))) (as_doc vehicleData)) s of
           (Inl err, s') \<Rightarrow> (json_error 500 ''Failed to add vehicle'', s')
         | (Inr insertedId, s') \<Rightarrow>
             (json_ok ''Vehicle added successfully'' [(''insertedId'', id_value insertedId)], s')))"

text \<open>\<open>GET /vehicles/:id\<close>, \<open>src/server.js\<close> lines 80-101, \<open>part_000\<close> lines 84-110.\<close>

definition get_vehicle :: "env \<Rightarrow> string \<Rightarrow> db \<Rightarrow> response \<times> db" where
  "get_vehicle e ident s =
     (if \<not> ObjectId_isValid e ident then (json_error 400 ''Invalid vehicle id'', s)
      else
        (case findOne e Vehicles (ObjectId_new e ident) s of
           (Inl err, s') \<Rightarrow> (json_error 500 ''Failed to fetch vehicle'', s')
         | (Inr None, s') \<Rightarrow> (json_error 404 ''Vehicle not found'', s')
         | (Inr (Some vehicle), s') \<Rightarrow> (\<lparr>status = 200, payload = Obj vehicle\<rparr>, s')))"

text \<open>\<open>GET /my-vehicles\<close>, \<open>src/server.js\<close> lines 104-122, \<open>part_000\<close> lines 113-138.
  The query parameter is absent or a string (\<open>?email=E\<close>); \<open>!email\<close> holds for the
  absent and for the empty one.\<close>

fun no_email :: "string option \<Rightarrow> bool" where
  "no_email None = True"
| "no_email (Some s) = (s = [])"

definition get_my_vehicles :: "env \<Rightarrow> string option \<Rightarrow> db \<Rightarrow> response \<times> db" where
  "get_my_vehicles e email s =
     (if no_email email then (json_error 400 ''Email query parameter is required'', s)
      else
        (case find_sorted e Vehicles email s of
           (Inl err, s') \<Rightarrow> (json_error 500 ''Failed to fetch user vehicles'', s')
         | (Inr vehicles, s') \<Rightarrow> (\<lparr>status = 200, payload = Arr vehicles\<rparr>, s')))"

text \<open>\<open>PUT /vehicles/:id\<close>, \<open>src/server.js\<close> lines 125-164, \<open>part_000\<close> lines 141-186.\<close>

definition set_fields :: "string list" where
  "set_fields = [''vehicleName'', ''owner'', ''category'', ''pricePerDay'', ''location'',
                 ''availability'', ''description'', ''coverImage'']"

definition updateDoc :: "body \<Rightarrow> doc" where
  "updateDoc updateData = map (\<lambda>k. (k, or_null (jget updateData k))) set_fields"

definition put_vehicle :: "env \<Rightarrow> string \<Rightarrow> body \<Rightarrow> db \<Rightarrow> response \<times> db" where
  "put_vehicle e ident updateData s =
     (if \<not> ObjectId_isValid e ident then (json_error 400 ''Invalid vehicle id'', s)
      else
        (case updateOne e Vehicles (ObjectId_new e ident) (updateDoc updateData) s of
           (Inl err, s') \<Rightarrow> (json_error 500 ''Failed to update vehicle'', s')
         | (Inr (matchedCount, modifiedCount), s') \<Rightarrow>
             if matchedCount = 0 then (json_error 404 ''Vehicle not found'', s')
             else (json_ok ''Vehicle updated successfully''
                     [(''modifiedCount'', BJson (JNum (int modifiedCount)))], s')))"

text \<open>\<open>DELETE /vehicles/:id\<close>, \<open>src/server.js\<close> lines 167-187, \<open>part_000\<close> lines 189-215.\<close>

definition delete_vehicle :: "env \<Rightarrow> string \<Rightarrow> db \<Rightarrow> response \<times> db" where
  "delete_vehicle e ident s =
     (if \<not> ObjectId_isValid e ident then (json_error 400 ''Invalid vehicle id'', s)
      else
        (case deleteOne e Vehicles (ObjectId_new e ident) s of
           (Inl err, s') \<Rightarrow> (json_error 500 ''Failed to delete vehicle'', s')
         | (Inr deletedCount, s') \<Rightarrow>
             if deletedCount = 0 then (json_error 404 ''Vehicle not found'', s')
             else (\<lparr>status = 200,
                    payload = Obj [(''success'', BJson (JBool True)),
                                   (''message'', BJson (JStr ''Vehicle deleted successfully''))]\<rparr>, s')))"

text \<open>\<open>a || b\<close> on a property read.\<close>

fun or_else :: "json option \<Rightarrow> json \<Rightarrow> json" where
  "or_else None b = b"
| "or_else (Some a) b = (if truthy (Some a) then a else b)"

definition bookings_required :: "body \<Rightarrow> bool" where
  "bookings_required bookingData =
     (truthy (jget bookingData ''vehicleId'') \<and> truthy (jget bookingData ''userEmail'') \<and>
      truthy (jget bookingData ''startDate'') \<and> truthy (jget bookingData ''endDate''))"

text \<open>The two assignments both copies make before the insert:
  \<open>bookingData.status = bookingData.status || "pending"\<close> and
  \<open>bookingData.createdAt = new Date()\<close>, on the document \<open>d\<close> that \<open>bookingData\<close> is by
  then.\<close>

definition stamp :: "env \<Rightarrow> body \<Rightarrow> doc \<Rightarrow> doc" where
  "stamp e bookingData d =
     bset ''createdAt'' (BDate (Ms (Date_now e)))
       (bset ''status'' (BJson (or_else (jget bookingData ''status'') (JStr ''pending''))) d)"

text \<open>\<open>POST /bookings\<close>, \<open>src/server.js\<close> lines 191-219: the dates are stored as received.\<close>

definition post_bookings_server_js :: "env \<Rightarrow> body \<Rightarrow> db \<Rightarrow> response \<times> db" where
  "post_bookings_server_js e bookingData s =
     (if \<not> bookings_required bookingData
      then (json_error 400 ''vehicleId, userEmail, startDate and endDate are required'', s)
      else
        (case insertOne e Bookings (stamp e bookingData (as_doc bookingData)) s of
           (Inl err, s') \<Rightarrow> (json_error 500 ''Failed to create booking'', s')
         | (Inr insertedId, s') \<Rightarrow>
             (json_ok ''Booking created successfully'' [(''bookingId'', id_value insertedId)], s')))"

text \<open>The inner \<open>try\<close> of \<open>part_000\<close> lines 238-246: \<open>bookingData\<close> after the two
  \<open>new Date\<close> assignments, or \<open>None\<close> when a constructor throws.\<close>

definition normalized :: "env \<Rightarrow> body \<Rightarrow> doc option" where
  "normalized e bookingData =
     (case new_Date (Date_parse e) (jget bookingData ''startDate'') of
        None \<Rightarrow> None
      | Some startDate \<Rightarrow>
          (case new_Date (Date_parse e) (jget bookingData ''endDate'') of
             None \<Rightarrow> None
           | Some endDate \<Rightarrow>
               Some (bset ''endDate'' (BDate endDate)
                      (bset ''startDate'' (BDate startDate) (as_doc bookingData)))))"

text \<open>\<open>POST /bookings\<close>, \<open>part_000\<close> lines 220-264.\<close>

definition post_bookings :: "env \<Rightarrow> body \<Rightarrow> db \<Rightarrow> response \<times> db" where
  "post_bookings e bookingData s =
     (if \<not> bookings_required bookingData
      then (json_error 400 ''vehicleId, userEmail, startDate and endDate are required'', s)
      else
        (case normalized e bookingData of
           None \<Rightarrow> (json_error 400 ''Invalid date format for startDate or endDate'', s)
         | Some d \<Rightarrow>
             (case insertOne e Bookings (stamp e bookingData d) s of
                (Inl err, s') \<Rightarrow> (json_error 500 ''Failed to create booking'', s')
              | (Inr insertedId, s') \<Rightarrow>
                  (json_ok ''Booking created successfully''
                     [(''bookingId'', id_value insertedId)], s'))))"

text \<open>\<open>GET /my-bookings\<close>, \<open>src/server.js\<close> lines 222-243, \<open>part_000\<close> lines 267-292.\<close>

definition get_my_bookings :: "env \<Rightarrow> string option \<Rightarrow> db \<Rightarrow> response \<times> db" where
  "get_my_bookings e email s =
     (if no_email email then (json_error 400 ''Email query parameter is required'', s)
      else
        (case find_sorted e Bookings email s of
           (Inl err, s') \<Rightarrow> (json_error 500 ''Failed to fetch user bookings'', s')
         | (Inr bookings, s') \<Rightarrow> (\<lparr>status = 200, payload = Arr bookings\<rparr>, s')))"

text \<open>\<open>DELETE /bookings/:id\<close>, \<open>src/server.js\<close> lines 246-266, \<open>part_000\<close> lines 295-321.\<close>

definition delete_booking :: "env \<Rightarrow> string \<Rightarrow> db \<Rightarrow> response \<times> db" where
  "delete_booking e ident s =
     (if \<not> ObjectId_isValid e ident then (json_error 400 ''Invalid booking id'', s)
      else
        (case deleteOne e Bookings (ObjectId_new e ident) s of
           (Inl err, s') \<Rightarrow> (json_error 500 ''Failed to delete booking'', s')
         | (Inr deletedCount, s') \<Rightarrow>
             if deletedCount = 0 then (json_error 404 ''Booking not found'', s')
             else (\<lparr>status = 200,
                    payload = Obj [(''success'', BJson (JBool True)),
                                   (''message'', BJson (JStr ''Booking deleted successfully''))]\<rparr>, s')))"

text \<open>The routes of \<open>run()\<close>.\<close>

datatype request =
    GetRoot
  | GetVehicles
  | PostVehicles body
  | GetVehicle string
  | GetMyVehicles "string option"
  | PutVehicle string body
  | DeleteVehicle string
  | PostBookings body
  | GetMyBookings "string option"
  | DeleteBooking string

fun handle :: "env \<Rightarrow> request \<Rightarrow> db \<Rightarrow> response \<times> db" where
  "handle e GetRoot s = get_root s"
| "handle e GetVehicles s = get_vehicles e s"
| "handle e (PostVehicles b) s = post_vehicles e b s"
| "handle e (GetVehicle i) s = get_vehicle e i s"
| "handle e (GetMyVehicles q) s = get_my_vehicles e q s"
| "handle e (PutVehicle i b) s = put_vehicle e i b s"
| "handle e (DeleteVehicle i) s = delete_vehicle e i s"
| "handle e (PostBookings b) s = post_bookings e b s"
| "handle e (GetMyBookings q) s = get_my_bookings e q s"
| "handle e (DeleteBooking i) s = delete_booking e i s"

fun handle_server_js :: "env \<Rightarrow> request \<Rightarrow> db \<Rightarrow> response \<times> db" where
  "handle_server_js e GetVehicles s = get_vehicles_server_js e s"
| "handle_server_js e (PostBookings b) s = post_bookings_server_js e b s"
| "handle_server_js e r s = handle e r s"

section \<open>A concrete environment\<close>

text \<open>
  For evaluating the handlers on concrete requests: a parser that knows the two ISO
  dates of the examples (midnight UTC, as every engine reads a date-only ISO string) and
  gives \<open>NaN\<close> for every other string, and the \<open>ObjectId\<close> of a string of 24 hexadecimal
  digits.
\<close>

definition sample_parse :: "string \<Rightarrow> timeval" where
  "sample_parse s =
     (if s = ''2024-01-01'' then Ms 1704067200000
      else if s = ''2024-01-05'' then Ms 1704412800000
      else NaN)"

definition hex_digit :: "char \<Rightarrow> int option" where
  "hex_digit c =
     (let n = (of_char c :: int)
      in if 48 \<le> n \<and> n \<le> 57 then Some (n - 48)
         else if 97 \<le> n \<and> n \<le> 102 then Some (n - 87)
         else if 65 \<le> n \<and> n \<le> 70 then Some (n - 55)
         else None)"

definition hex24 :: "string \<Rightarrow> bool" where
  "hex24 s = (length s = 24 \<and> list_all (\<lambda>c. hex_digit c \<noteq> None) s)"

definition hex_value :: "string \<Rightarrow> oid" where
  "hex_value s = foldl (\<lambda>a c. 16 * a + (case hex_digit c of Some d \<Rightarrow> d | None \<Rightarrow> 0)) 0 s"

definition sample_env :: "int \<Rightarrow> oid \<Rightarrow> env" where
  "sample_env now pk =
     \<lparr>Date_now = now, Date_parse = sample_parse, ObjectId_isValid = hex24,
      ObjectId_new = hex_value, createPk = pk, db_failure = (\<lambda>c. None)\<rparr>"


definition empty_db :: db where
  "empty_db = \<lparr>vehiclesCollection = [], bookingsCollection = [], calls = []\<rparr>"

text \<open>A store with one vehicle, as \<open>POST /vehicles\<close> leaves it, and its identifier.\<close>

definition sample_id :: string where
  "sample_id = ''65a1b2c3d4e5f60718293a4b''"

definition sample_vehicle :: doc where
  "sample_vehicle =
     [(''vehicleName'', BJson (JStr ''Car'')), (''owner'', BJson (JStr ''Ann'')),
      (''userEmail'', BJson (JStr ''a@x.com'')), (''createdAt'', BDate (Ms 1700000000000)),
      (''_id'', BObjectId 31453467242603790624579205707)]"

definition one_vehicle_db :: db where
  "one_vehicle_db = \<lparr>vehiclesCollection = [sample_vehicle], bookingsCollection = [], calls = []\<rparr>"

text \<open>A store with two vehicles of two owners, the older one first.\<close>

definition older_vehicle :: doc where
  "older_vehicle =
     [(''vehicleName'', BJson (JStr ''Bus'')), (''userEmail'', BJson (JStr ''b@x.com'')),
      (''createdAt'', BDate (Ms 1600000000000)), (''_id'', BObjectId 5)]"

definition two_vehicles_db :: db where
  "two_vehicles_db =
     \<lparr>vehiclesCollection = [older_vehicle, sample_vehicle], bookingsCollection = [], calls = []\<rparr>"

text \<open>The booking request of the spec's examples.\<close>

definition sample_booking :: body where
  "sample_booking =
     [(''vehicleId'', JStr ''v1''), (''userEmail'', JStr ''a@x.com''),
      (''startDate'', JStr ''2024-01-01''), (''endDate'', JStr ''2024-01-05'')]"

section \<open>Basic facts\<close>

lemma bget_bset: "bget (bset k v d) k' = (if k' = k then Some v else bget d k')"
  by (induction d) (auto simp: bget_def)

lemma bget_as_doc: "bget (as_doc b) k = map_option BJson (jget b k)"
  by (induction b) (auto simp: bget_def jget_def as_doc_def)

lemma bget_serialized: "bget (serialized d) k = map_option wire (bget d k)"
  by (induction d) (auto simp: bget_def serialized_def)

lemma serialized_bset: "serialized (bset k v d) = bset k (wire v) (serialized d)"
  by (induction d) (auto simp: serialized_def)

lemma serialized_as_doc: "serialized (as_doc b) = as_doc b"
  by (induction b) (auto simp: serialized_def as_doc_def)

lemma wire_null: "wire v = BJson JNull \<longleftrightarrow> v = BJson JNull"
  by (cases v rule: wire.cases) auto

lemma serialized_with_id: "serialized (with_id e d) = with_id e (serialized d)"
  by (auto simp: with_id_def bget_serialized serialized_bset wire_null)

lemma bget_with_id:
  "bget (with_id e d) k =
     (if k = ''_id'' \<and> (bget d ''_id'' = None \<or> bget d ''_id'' = Some (BJson JNull))
      then Some (BObjectId (createPk e)) else bget d k)"
  by (auto simp: with_id_def bget_bset)

lemma insertOne_accepted:
  "insert_error e c (with_id e d) s = None \<Longrightarrow>
   insertOne e c d s =
     (Inr (bget (with_id e d) ''_id''),
      put_docs c (docs_of c s @ [serialized (with_id e d)]) (issue (InsertOne c (with_id e d)) s))"
  by (simp add: insertOne_def Let_def)

lemma insertOne_refused:
  "insert_error e c (with_id e d) s = Some m \<Longrightarrow>
   insertOne e c d s = (Inl m, issue (InsertOne c (with_id e d)) s)"
  by (simp add: insertOne_def Let_def)

lemma put_docs_issue:
  "put_docs Vehicles ds (issue c s) = (issue c s)\<lparr>vehiclesCollection := ds\<rparr>"
  "put_docs Bookings ds (issue c s) = (issue c s)\<lparr>bookingsCollection := ds\<rparr>"
  by simp_all

lemma issue_collections [simp]:
  "vehiclesCollection (issue c s) = vehiclesCollection s"
  "bookingsCollection (issue c s) = bookingsCollection s"
  "calls (issue c s) = calls s @ [c]"
  by (simp_all add: issue_def)

lemma status_json [simp]:
  "status (json_error c m) = c" "status (json_ok m x) = 200"
  by (simp_all add: json_error_def json_ok_def)

lemma find_split:
  "find P ds = Some d \<Longrightarrow> \<exists>pre post. ds = pre @ d # post \<and> (\<forall>x\<in>set pre. \<not> P x) \<and> P d"
proof (induction ds)
  case Nil
  then show ?case by simp
next
  case (Cons a ds)
  show ?case
  proof (cases "P a")
    case True
    with Cons.prems have "a = d" by simp
    with True have "a # ds = [] @ d # ds \<and> (\<forall>x\<in>set []. \<not> P x) \<and> P d" by simp
    then show ?thesis by blast
  next
    case False
    with Cons obtain pre post where "ds = pre @ d # post" "\<forall>x\<in>set pre. \<not> P x" "P d" by auto
    with False have "a # ds = (a # pre) @ d # post \<and> (\<forall>x\<in>set (a # pre). \<not> P x) \<and> P d" by simp
    then show ?thesis by blast
  qed
qed

lemma find_None_iff_all: "find P ds = None \<longleftrightarrow> (\<forall>x\<in>set ds. \<not> P x)"
  by (induction ds) auto

lemmas sample_defs = sample_env_def empty_db_def sample_parse_def

lemmas store_defs = insertOne_def insert_error_def with_id_def issue_def bget_def jget_def
  as_doc_def serialized_def Let_def

lemma sample_id_valid: "hex24 sample_id"
  by (simp add: hex24_def hex_digit_def sample_id_def)

lemma sample_id_value: "hex_value sample_id = 31453467242603790624579205707"
  by (simp add: hex_value_def hex_digit_def sample_id_def)

lemma abc_invalid: "\<not> hex24 ''abc''"
  by (simp add: hex24_def)

section \<open>Updating a vehicle\<close>

lemma bget_apply_set_other: "k \<notin> fst ` set fs \<Longrightarrow> bget (apply_set fs d) k = bget d k"
  by (induction fs d rule: apply_set.induct) (auto simp: bget_bset)

lemma bget_apply_set_in:
  "distinct (map fst fs) \<Longrightarrow> (k, v) \<in> set fs \<Longrightarrow> bget (apply_set fs d) k = Some v"
proof (induction fs d rule: apply_set.induct)
  case (1 d)
  then show ?case by simp
next
  case (2 k' v' fs d)
  show ?case
  proof (cases "(k, v) = (k', v')")
    case True
    with 2 have "k \<notin> fst ` set fs" by auto
    then show ?thesis using True by (simp add: bget_apply_set_other bget_bset)
  next
    case False
    with 2 show ?thesis by auto
  qed
qed

lemma fst_updateDoc: "fst ` set (updateDoc b) = set set_fields"
  by (auto simp: updateDoc_def image_iff)

lemma distinct_updateDoc: "distinct (map fst (updateDoc b))"
  by (simp add: updateDoc_def set_fields_def comp_def)

lemma bget_updateDoc_other:
  "k \<notin> set set_fields \<Longrightarrow> bget (apply_set (updateDoc b) d) k = bget d k"
  by (simp add: bget_apply_set_other fst_updateDoc)

lemma bget_updateDoc_in:
  "k \<in> set set_fields \<Longrightarrow> bget (apply_set (updateDoc b) d) k = Some (or_null (jget b k))"
  by (rule bget_apply_set_in[OF distinct_updateDoc]) (auto simp: updateDoc_def)

lemma update_first_split:
  "\<forall>x\<in>set pre. \<not> has_id i x \<Longrightarrow> has_id i d \<Longrightarrow>
   update_first i fs (pre @ d # post) = pre @ apply_set fs d # post"
  by (induction pre) auto

lemma delete_first_split:
  "\<forall>x\<in>set pre. \<not> has_id i x \<Longrightarrow> has_id i d \<Longrightarrow>
   delete_first i (pre @ d # post) = pre @ post"
  by (induction pre) auto

lemma length_update_first: "length (update_first i fs ds) = length ds"
  by (induction ds) auto

lemma update_first_frame:
  "n < length ds \<Longrightarrow> k \<notin> fst ` set fs \<Longrightarrow> bget (update_first i fs ds ! n) k = bget (ds ! n) k"
proof (induction ds arbitrary: n)
  case Nil
  then show ?case by simp
next
  case (Cons a ds)
  then show ?case by (cases n) (auto simp: bget_apply_set_other)
qed

lemma put_vehicle_invalid:
  "\<not> ObjectId_isValid e ident \<Longrightarrow>
   put_vehicle e ident b s = (json_error 400 ''Invalid vehicle id'', s)"
  by (simp add: put_vehicle_def)

lemma put_vehicle_failure:
  "ObjectId_isValid e ident \<Longrightarrow>
   db_failure e (UpdateOne Vehicles (ObjectId_new e ident) (updateDoc b)) = Some m \<Longrightarrow>
   put_vehicle e ident b s =
     (json_error 500 ''Failed to update vehicle'',
      issue (UpdateOne Vehicles (ObjectId_new e ident) (updateDoc b)) s)"
  by (simp add: put_vehicle_def updateOne_def Let_def)

lemma put_vehicle_absent:
  "ObjectId_isValid e ident \<Longrightarrow>
   db_failure e (UpdateOne Vehicles (ObjectId_new e ident) (updateDoc b)) = None \<Longrightarrow>
   find (has_id (ObjectId_new e ident)) (vehiclesCollection s) = None \<Longrightarrow>
   put_vehicle e ident b s =
     (json_error 404 ''Vehicle not found'',
      issue (UpdateOne Vehicles (ObjectId_new e ident) (updateDoc b)) s)"
  by (simp add: put_vehicle_def updateOne_def Let_def)

lemma put_vehicle_present:
  "ObjectId_isValid e ident \<Longrightarrow>
   db_failure e (UpdateOne Vehicles (ObjectId_new e ident) (updateDoc b)) = None \<Longrightarrow>
   find (has_id (ObjectId_new e ident)) (vehiclesCollection s) = Some d \<Longrightarrow>
   put_vehicle e ident b s =
     (json_ok ''Vehicle updated successfully''
        [(''modifiedCount'', BJson (JNum (if apply_set (updateDoc b) d = d then 0 else 1)))],
      (issue (UpdateOne Vehicles (ObjectId_new e ident) (updateDoc b)) s)
        \<lparr>vehiclesCollection :=
           update_first (ObjectId_new e ident) (updateDoc b) (vehiclesCollection s)\<rparr>)"
  by (simp add: put_vehicle_def updateOne_def Let_def issue_def)

lemma put_vehicle_cases:
  "(status (fst (put_vehicle e ident b s)) \<noteq> 200 \<and>
     (snd (put_vehicle e ident b s) = s
      \<or> snd (put_vehicle e ident b s) =
          issue (UpdateOne Vehicles (ObjectId_new e ident) (updateDoc b)) s))
   \<or> (status (fst (put_vehicle e ident b s)) = 200 \<and>
       (\<exists>d. find (has_id (ObjectId_new e ident)) (vehiclesCollection s) = Some d) \<and>
       snd (put_vehicle e ident b s) =
       (issue (UpdateOne Vehicles (ObjectId_new e ident) (updateDoc b)) s)
        \<lparr>vehiclesCollection :=
           update_first (ObjectId_new e ident) (updateDoc b) (vehiclesCollection s)\<rparr>)"
proof (cases "ObjectId_isValid e ident")
  case False
  then show ?thesis by (simp add: put_vehicle_invalid json_error_def)
next
  case True
  show ?thesis
  proof (cases "db_failure e (UpdateOne Vehicles (ObjectId_new e ident) (updateDoc b))")
    case (Some m)
    with True show ?thesis by (simp add: put_vehicle_failure json_error_def)
  next
    case None
    show ?thesis
    proof (cases "find (has_id (ObjectId_new e ident)) (vehiclesCollection s)")
      case fNone: None
      with True None show ?thesis by (simp add: put_vehicle_absent json_error_def)
    next
      case (Some d)
      with True None show ?thesis by (simp add: put_vehicle_present json_ok_def)
    qed
  qed
qed

lemma or_null_case: "or_null x = (case x of None \<Rightarrow> BJson JNull | Some v \<Rightarrow> BJson v)"
  by (cases x) auto

lemma map_of_updated_other:
  "k \<notin> set [''vehicleName'', ''owner'', ''category'', ''pricePerDay'', ''location'',
              ''availability'', ''description'', ''coverImage''] \<Longrightarrow>
   map_of (apply_set (updateDoc b) d) k = map_of d k"
  using bget_updateDoc_other[of k b d] by (simp add: bget_def set_fields_def)

lemma map_of_updated_in:
  "k \<in> set [''vehicleName'', ''owner'', ''category'', ''pricePerDay'', ''location'',
              ''availability'', ''description'', ''coverImage''] \<Longrightarrow>
   map_of (apply_set (updateDoc b) d) k =
     Some (case map_of b k of None \<Rightarrow> BJson JNull | Some v \<Rightarrow> BJson v)"
  using bget_updateDoc_in[of k b d] by (simp add: bget_def jget_def set_fields_def or_null_case)

lemma put_vehicle_effect:
  "bookingsCollection (snd (put_vehicle e ident b s)) = bookingsCollection s
   \<and> (if status (fst (put_vehicle e ident b s)) = 200
      then \<exists>pre d post.
             vehiclesCollection s = pre @ d # post
           \<and> (\<forall>x\<in>set pre. map_of x ''_id'' \<noteq> Some (BObjectId (ObjectId_new e ident)))
           \<and> map_of d ''_id'' = Some (BObjectId (ObjectId_new e ident))
           \<and> vehiclesCollection (snd (put_vehicle e ident b s)) =
               pre @ apply_set (updateDoc b) d # post
      else vehiclesCollection (snd (put_vehicle e ident b s)) = vehiclesCollection s)"
proof -
  let ?i = "ObjectId_new e ident"
  let ?c = "UpdateOne Vehicles ?i (updateDoc b)"
  consider
    (same) "status (fst (put_vehicle e ident b s)) \<noteq> 200"
           "snd (put_vehicle e ident b s) = s"
  | (issued) "status (fst (put_vehicle e ident b s)) \<noteq> 200"
           "snd (put_vehicle e ident b s) = issue ?c s"
  | (updated) d where "status (fst (put_vehicle e ident b s)) = 200"
           "find (has_id ?i) (vehiclesCollection s) = Some d"
           "snd (put_vehicle e ident b s) =
              (issue ?c s)\<lparr>vehiclesCollection :=
                 update_first ?i (updateDoc b) (vehiclesCollection s)\<rparr>"
    using put_vehicle_cases[of e ident b s] by blast
  then show ?thesis
  proof cases
    case same
    then show ?thesis by simp
  next
    case issued
    then show ?thesis by simp
  next
    case updated
    from find_split[OF updated(2)] obtain pre post where
      vs: "vehiclesCollection s = pre @ d # post" and pre: "\<forall>x\<in>set pre. \<not> has_id ?i x"
      and d: "has_id ?i d"
      by blast
    have "update_first ?i (updateDoc b) (vehiclesCollection s) =
        pre @ apply_set (updateDoc b) d # post"
      unfolding vs by (rule update_first_split[OF pre d])
    with updated(1,3) vs pre d show ?thesis
      by (auto simp: has_id_def bget_def)
  qed
qed

section \<open>What an update can change\<close>

text \<open>
  Claim C2, as amended. The claim says that every field of a vehicle other than the
  identifier and \<open>createdAt\<close> can be replaced by \<open>PUT /vehicles/:id\<close>, \<open>userEmail\<close> in
  particular. The handler sets the eight fields of its \<open>$set\<close> and nothing else. For every
  request and every store: the bookings stay as they are; when the answer is not 200
  the vehicles stay as they are; when it is 200, the collection is the old one with one
  document \<open>d\<close> replaced by \<open>d'\<close>, where \<open>d\<close> is the first vehicle with the identifier of
  the request, each of the eight fields of \<open>d'\<close> has the value of the request body (null
  when the body has none), and every other field of \<open>d'\<close> is as in \<open>d\<close>: so are
  \<open>_id\<close>, \<open>createdAt\<close> and \<open>userEmail\<close>.
\<close>

theorem put_vehicle_changes_only_set_fields:
  "bookingsCollection (snd (put_vehicle e ident updateData s)) = bookingsCollection s
   \<and> (if status (fst (put_vehicle e ident updateData s)) = 200
      then \<exists>pre d post d'.
             vehiclesCollection s = pre @ d # post
           \<and> (\<forall>x\<in>set pre. map_of x ''_id'' \<noteq> Some (BObjectId (ObjectId_new e ident)))
           \<and> map_of d ''_id'' = Some (BObjectId (ObjectId_new e ident))
           \<and> vehiclesCollection (snd (put_vehicle e ident updateData s)) = pre @ d' # post
           \<and> (\<forall>k\<in>set [''vehicleName'', ''owner'', ''category'', ''pricePerDay'', ''location'',
                        ''availability'', ''description'', ''coverImage''].
                 map_of d' k =
                   Some (case map_of updateData k of None \<Rightarrow> BJson JNull | Some v \<Rightarrow> BJson v))
           \<and> (\<forall>k. k \<notin> set [''vehicleName'', ''owner'', ''category'', ''pricePerDay'',
                            ''location'', ''availability'', ''description'', ''coverImage''] \<longrightarrow>
                 map_of d' k = map_of d k)
           \<and> map_of d' ''_id'' = map_of d ''_id''
           \<and> map_of d' ''createdAt'' = map_of d ''createdAt''
           \<and> map_of d' ''userEmail'' = map_of d ''userEmail''
      else vehiclesCollection (snd (put_vehicle e ident updateData s)) = vehiclesCollection s)"
proof (cases "status (fst (put_vehicle e ident updateData s)) = 200")
  case False
  then show ?thesis using put_vehicle_effect[of e ident updateData s] by simp
next
  case True
  with put_vehicle_effect[of e ident updateData s] obtain pre d post where
    vs: "vehiclesCollection s = pre @ d # post"
    and pre: "\<forall>x\<in>set pre. map_of x ''_id'' \<noteq> Some (BObjectId (ObjectId_new e ident))"
    and d: "map_of d ''_id'' = Some (BObjectId (ObjectId_new e ident))"
    and after: "vehiclesCollection (snd (put_vehicle e ident updateData s)) =
        pre @ apply_set (updateDoc updateData) d # post"
    by auto
  let ?d' = "apply_set (updateDoc updateData) d"
  have eight: "\<forall>k\<in>set [''vehicleName'', ''owner'', ''category'', ''pricePerDay'', ''location'',
                        ''availability'', ''description'', ''coverImage''].
                 map_of ?d' k =
                   Some (case map_of updateData k of None \<Rightarrow> BJson JNull | Some v \<Rightarrow> BJson v)"
    using map_of_updated_in[of _ updateData d] by blast
  have rest: "\<forall>k. k \<notin> set [''vehicleName'', ''owner'', ''category'', ''pricePerDay'',
                            ''location'', ''availability'', ''description'', ''coverImage''] \<longrightarrow>
                 map_of ?d' k = map_of d k"
    using map_of_updated_other[of _ updateData d] by blast
  have three: "map_of ?d' ''_id'' = map_of d ''_id''"
    "map_of ?d' ''createdAt'' = map_of d ''createdAt''"
    "map_of ?d' ''userEmail'' = map_of d ''userEmail''"
    by (simp_all add: map_of_updated_other)
  have "\<exists>pre d post d'.
             vehiclesCollection s = pre @ d # post
           \<and> (\<forall>x\<in>set pre. map_of x ''_id'' \<noteq> Some (BObjectId (ObjectId_new e ident)))
           \<and> map_of d ''_id'' = Some (BObjectId (ObjectId_new e ident))
           \<and> vehiclesCollection (snd (put_vehicle e ident updateData s)) = pre @ d' # post
           \<and> (\<forall>k\<in>set [''vehicleName'', ''owner'', ''category'', ''pricePerDay'', ''location'',
                        ''availability'', ''description'', ''coverImage''].
                 map_of d' k =
                   Some (case map_of updateData k of None \<Rightarrow> BJson JNull | Some v \<Rightarrow> BJson v))
           \<and> (\<forall>k. k \<notin> set [''vehicleName'', ''owner'', ''category'', ''pricePerDay'',
                            ''location'', ''availability'', ''description'', ''coverImage''] \<longrightarrow>
                 map_of d' k = map_of d k)
           \<and> map_of d' ''_id'' = map_of d ''_id''
           \<and> map_of d' ''createdAt'' = map_of d ''createdAt''
           \<and> map_of d' ''userEmail'' = map_of d ''userEmail''"
    using vs pre d after eight rest three by blast
  with True put_vehicle_effect[of e ident updateData s] show ?thesis by simp
qed

lemmas update_defs = put_vehicle_def updateOne_def updateDoc_def set_fields_def has_id_def
  issue_def bget_def jget_def Let_def json_ok_def json_error_def

text \<open>
  Counterexample to claim C2 as stated: an update whose body carries a new \<open>userEmail\<close>
  (and a new \<open>vehicleName\<close>) is answered with 200 and one modified document, and the
  stored \<open>userEmail\<close> is still the old one.
\<close>

theorem put_vehicle_keeps_userEmail:
  "put_vehicle (sample_env 1700000000001 8) sample_id
     [(''vehicleName'', JStr ''Van''), (''userEmail'', JStr ''b@x.com'')] one_vehicle_db =
   (\<lparr>status = 200,
     payload = Obj [(''success'', BJson (JBool True)),
                    (''message'', BJson (JStr ''Vehicle updated successfully'')),
                    (''modifiedCount'', BJson (JNum 1))]\<rparr>,
    \<lparr>vehiclesCollection =
       [[(''vehicleName'', BJson (JStr ''Van'')), (''owner'', BJson JNull),
         (''userEmail'', BJson (JStr ''a@x.com'')), (''createdAt'', BDate (Ms 1700000000000)),
         (''_id'', BObjectId 31453467242603790624579205707),
         (''category'', BJson JNull), (''pricePerDay'', BJson JNull),
         (''location'', BJson JNull), (''availability'', BJson JNull),
         (''description'', BJson JNull), (''coverImage'', BJson JNull)]],
     bookingsCollection = [],
     calls =
       [UpdateOne Vehicles 31453467242603790624579205707
         [(''vehicleName'', BJson (JStr ''Van'')), (''owner'', BJson JNull),
          (''category'', BJson JNull), (''pricePerDay'', BJson JNull),
          (''location'', BJson JNull), (''availability'', BJson JNull),
          (''description'', BJson JNull), (''coverImage'', BJson JNull)]]\<rparr>)"
  by (simp add: update_defs sample_env_def one_vehicle_db_def sample_vehicle_def
      sample_id_valid sample_id_value)

lemma absent_id_valid: "hex24 ''65a1b2c3d4e5f60718293a4c''"
  by (simp add: hex24_def hex_digit_def)

lemma absent_id_value: "hex_value ''65a1b2c3d4e5f60718293a4c'' = 31453467242603790624579205708"
  by (simp add: hex_value_def hex_digit_def)

text \<open>
  The amended statement on a store of two vehicles: an update of the second one with a
  body that carries \<open>vehicleName\<close>, \<open>pricePerDay\<close> and a new \<open>userEmail\<close> leaves the first
  vehicle untouched, gives the second the two values and null for the six omitted
  fields, and keeps its \<open>userEmail\<close>, \<open>createdAt\<close> and \<open>_id\<close>; with an identifier that no
  vehicle has, the answer is not 200 and the vehicles are as before.
\<close>

theorem put_vehicle_changes_only_set_fields_witness:
  "status (fst (put_vehicle (sample_env 1700000000001 8) sample_id
      [(''vehicleName'', JStr ''Van''), (''pricePerDay'', JNum 50), (''userEmail'', JStr ''b@x.com'')]
      two_vehicles_db)) = 200
   \<and> vehiclesCollection (snd (put_vehicle (sample_env 1700000000001 8) sample_id
      [(''vehicleName'', JStr ''Van''), (''pricePerDay'', JNum 50), (''userEmail'', JStr ''b@x.com'')]
      two_vehicles_db)) =
     [[(''vehicleName'', BJson (JStr ''Bus'')), (''userEmail'', BJson (JStr ''b@x.com'')),
       (''createdAt'', BDate (Ms 1600000000000)), (''_id'', BObjectId 5)],
      [(''vehicleName'', BJson (JStr ''Van'')), (''owner'', BJson JNull),
       (''userEmail'', BJson (JStr ''a@x.com'')), (''createdAt'', BDate (Ms 1700000000000)),
       (''_id'', BObjectId 31453467242603790624579205707),
       (''category'', BJson JNull), (''pricePerDay'', BJson (JNum 50)),
       (''location'', BJson JNull), (''availability'', BJson JNull),
       (''description'', BJson JNull), (''coverImage'', BJson JNull)]]
   \<and> status (fst (put_vehicle (sample_env 1700000000001 8) ''65a1b2c3d4e5f60718293a4c''
      [(''vehicleName'', JStr ''Van'')] two_vehicles_db)) = 404
   \<and> vehiclesCollection (snd (put_vehicle (sample_env 1700000000001 8) ''65a1b2c3d4e5f60718293a4c''
      [(''vehicleName'', JStr ''Van'')] two_vehicles_db)) =
     [[(''vehicleName'', BJson (JStr ''Bus'')), (''userEmail'', BJson (JStr ''b@x.com'')),
       (''createdAt'', BDate (Ms 1600000000000)), (''_id'', BObjectId 5)],
      [(''vehicleName'', BJson (JStr ''Car'')), (''owner'', BJson (JStr ''Ann'')),
       (''userEmail'', BJson (JStr ''a@x.com'')), (''createdAt'', BDate (Ms 1700000000000)),
       (''_id'', BObjectId 31453467242603790624579205707)]]"
  using put_vehicle_changes_only_set_fields [of "sample_env 1700000000001 8" sample_id
      "[(''vehicleName'', JStr ''Van''), (''pricePerDay'', JNum 50), (''userEmail'', JStr ''b@x.com'')]"
      two_vehicles_db]
    put_vehicle_changes_only_set_fields [of "sample_env 1700000000001 8"
      "''65a1b2c3d4e5f60718293a4c''" "[(''vehicleName'', JStr ''Van'')]" two_vehicles_db]
  by (simp add: update_defs sample_env_def two_vehicles_db_def older_vehicle_def
      sample_vehicle_def sample_id_valid sample_id_value absent_id_valid absent_id_value)

section \<open>The update overwrites the eight fields\<close>

text \<open>
  Claim C3. For a \<open>PUT /vehicles/:id\<close> request with a valid identifier whose persistence
  call does not fail: when a vehicle has that identifier, the first such document \<open>d\<close> is
  replaced by a document \<open>d'\<close> in which each of the eight fields is the value the request
  body has for it, and null when the body omits it (the earlier value is not kept), and
  every other field is as in \<open>d\<close>; the other documents stay, and the answer is 200 with
  the body \<open>{success: true, message: "Vehicle updated successfully", modifiedCount: n}\<close>,
  where \<open>n\<close> is 1 when the document changed and 0 when it did not. When no vehicle has
  the identifier, the answer is 404 with \<open>{success: false, error: "Vehicle not found"}\<close>
  and the vehicles are unchanged.
\<close>

theorem put_vehicle_overwrites_set_fields:
  assumes "ObjectId_isValid e ident"
    and "db_failure e (UpdateOne Vehicles (ObjectId_new e ident)
           (map (\<lambda>k. (k, case map_of updateData k of None \<Rightarrow> BJson JNull | Some v \<Rightarrow> BJson v))
              [''vehicleName'', ''owner'', ''category'', ''pricePerDay'', ''location'',
               ''availability'', ''description'', ''coverImage''])) = None"
  shows "if \<exists>d\<in>set (vehiclesCollection s). map_of d ''_id'' = Some (BObjectId (ObjectId_new e ident))
         then \<exists>pre d post d'.
                vehiclesCollection s = pre @ d # post
                \<and> (\<forall>x\<in>set pre. map_of x ''_id'' \<noteq> Some (BObjectId (ObjectId_new e ident)))
                \<and> map_of d ''_id'' = Some (BObjectId (ObjectId_new e ident))
                \<and> vehiclesCollection (snd (put_vehicle e ident updateData s)) = pre @ d' # post
                \<and> (\<forall>k\<in>set [''vehicleName'', ''owner'', ''category'', ''pricePerDay'',
                             ''location'', ''availability'', ''description'', ''coverImage''].
                      (\<forall>v. map_of updateData k = Some v \<longrightarrow> map_of d' k = Some (BJson v))
                      \<and> (map_of updateData k = None \<longrightarrow> map_of d' k = Some (BJson JNull)))
                \<and> (\<forall>k. k \<notin> set [''vehicleName'', ''owner'', ''category'', ''pricePerDay'',
                             ''location'', ''availability'', ''description'', ''coverImage''] \<longrightarrow>
                      map_of d' k = map_of d k)
                \<and> fst (put_vehicle e ident updateData s) =
                    \<lparr>status = 200,
                     payload = Obj [(''success'', BJson (JBool True)),
                                    (''message'', BJson (JStr ''Vehicle updated successfully'')),
                                    (''modifiedCount'', BJson (JNum (if d' = d then 0 else 1)))]\<rparr>
         else fst (put_vehicle e ident updateData s) =
                \<lparr>status = 404,
                 payload = Obj [(''success'', BJson (JBool False)),
                                (''error'', BJson (JStr ''Vehicle not found''))]\<rparr>
              \<and> vehiclesCollection (snd (put_vehicle e ident updateData s)) = vehiclesCollection s"
proof -
  let ?i = "ObjectId_new e ident"
  have doc: "updateDoc updateData =
      map (\<lambda>k. (k, case map_of updateData k of None \<Rightarrow> BJson JNull | Some v \<Rightarrow> BJson v))
        [''vehicleName'', ''owner'', ''category'', ''pricePerDay'', ''location'',
         ''availability'', ''description'', ''coverImage'']"
    by (simp add: updateDoc_def set_fields_def jget_def or_null_case)
  have ok: "db_failure e (UpdateOne Vehicles ?i (updateDoc updateData)) = None"
    using assms(2) by (simp only: doc)
  have ids: "has_id ?i = (\<lambda>x. map_of x ''_id'' = Some (BObjectId ?i))"
    by (auto simp: has_id_def bget_def)
  show ?thesis
  proof (cases "find (has_id ?i) (vehiclesCollection s)")
    case None
    then have "\<not> (\<exists>d\<in>set (vehiclesCollection s). map_of d ''_id'' = Some (BObjectId ?i))"
      by (simp add: find_None_iff_all ids)
    then show ?thesis
      using put_vehicle_absent[OF assms(1) ok None] by (simp add: json_error_def)
  next
    case (Some d)
    let ?d' = "apply_set (updateDoc updateData) d"
    from find_split[OF Some] obtain pre post where
      vs: "vehiclesCollection s = pre @ d # post"
      and pre: "\<forall>x\<in>set pre. map_of x ''_id'' \<noteq> Some (BObjectId ?i)"
      and d: "map_of d ''_id'' = Some (BObjectId ?i)"
      unfolding ids by blast
    have ex: "\<exists>d\<in>set (vehiclesCollection s). map_of d ''_id'' = Some (BObjectId ?i)"
      using vs d by auto
    have "update_first ?i (updateDoc updateData) (vehiclesCollection s) = pre @ ?d' # post"
      unfolding vs by (rule update_first_split) (use pre d in \<open>simp_all add: ids\<close>)
    then have after: "vehiclesCollection (snd (put_vehicle e ident updateData s)) = pre @ ?d' # post"
      using put_vehicle_present[OF assms(1) ok Some] by simp
    have resp: "fst (put_vehicle e ident updateData s) =
        \<lparr>status = 200,
         payload = Obj [(''success'', BJson (JBool True)),
                        (''message'', BJson (JStr ''Vehicle updated successfully'')),
                        (''modifiedCount'', BJson (JNum (if ?d' = d then 0 else 1)))]\<rparr>"
      using put_vehicle_present[OF assms(1) ok Some] by (simp add: json_ok_def)
    have eight: "\<forall>k\<in>set [''vehicleName'', ''owner'', ''category'', ''pricePerDay'',
                             ''location'', ''availability'', ''description'', ''coverImage''].
                      (\<forall>v. map_of updateData k = Some v \<longrightarrow> map_of ?d' k = Some (BJson v))
                      \<and> (map_of updateData k = None \<longrightarrow> map_of ?d' k = Some (BJson JNull))"
      using map_of_updated_in[of _ updateData d] by auto
    have rest: "\<forall>k. k \<notin> set [''vehicleName'', ''owner'', ''category'', ''pricePerDay'',
                             ''location'', ''availability'', ''description'', ''coverImage''] \<longrightarrow>
                      map_of ?d' k = map_of d k"
      using map_of_updated_other[of _ updateData d] by blast
    have "\<exists>pre d post d'.
                vehiclesCollection s = pre @ d # post
                \<and> (\<forall>x\<in>set pre. map_of x ''_id'' \<noteq> Some (BObjectId (ObjectId_new e ident)))
                \<and> map_of d ''_id'' = Some (BObjectId (ObjectId_new e ident))
                \<and> vehiclesCollection (snd (put_vehicle e ident updateData s)) = pre @ d' # post
                \<and> (\<forall>k\<in>set [''vehicleName'', ''owner'', ''category'', ''pricePerDay'',
                             ''location'', ''availability'', ''description'', ''coverImage''].
                      (\<forall>v. map_of updateData k = Some v \<longrightarrow> map_of d' k = Some (BJson v))
                      \<and> (map_of updateData k = None \<longrightarrow> map_of d' k = Some (BJson JNull)))
                \<and> (\<forall>k. k \<notin> set [''vehicleName'', ''owner'', ''category'', ''pricePerDay'',
                             ''location'', ''availability'', ''description'', ''coverImage''] \<longrightarrow>
                      map_of d' k = map_of d k)
                \<and> fst (put_vehicle e ident updateData s) =
                    \<lparr>status = 200,
                     payload = Obj [(''success'', BJson (JBool True)),
                                    (''message'', BJson (JStr ''Vehicle updated successfully'')),
                                    (''modifiedCount'', BJson (JNum (if d' = d then 0 else 1)))]\<rparr>"
      using vs pre d after eight rest resp by blast
    with ex show ?thesis by simp
  qed
qed

text \<open>
  Claim C3 at three requests on the store with one vehicle (owner "Ann"): a body with
  \<open>vehicleName\<close> and \<open>pricePerDay\<close> and without \<open>owner\<close> stores the two values and makes
  the owner null, with \<open>modifiedCount\<close> 1; the same body sent again changes nothing and
  reports \<open>modifiedCount\<close> 0; an identifier that no vehicle has is answered with 404.
\<close>

theorem put_vehicle_overwrites_set_fields_witness:
  "ObjectId_isValid (sample_env 1700000000001 8) sample_id
   \<and> put_vehicle (sample_env 1700000000001 8) sample_id
        [(''vehicleName'', JStr ''Van''), (''pricePerDay'', JNum 50)] one_vehicle_db =
     (\<lparr>status = 200,
       payload = Obj [(''success'', BJson (JBool True)),
                      (''message'', BJson (JStr ''Vehicle updated successfully'')),
                      (''modifiedCount'', BJson (JNum 1))]\<rparr>,
      \<lparr>vehiclesCollection =
         [[(''vehicleName'', BJson (JStr ''Van'')), (''owner'', BJson JNull),
           (''userEmail'', BJson (JStr ''a@x.com'')), (''createdAt'', BDate (Ms 1700000000000)),
           (''_id'', BObjectId 31453467242603790624579205707),
           (''category'', BJson JNull), (''pricePerDay'', BJson (JNum 50)),
           (''location'', BJson JNull), (''availability'', BJson JNull),
           (''description'', BJson JNull), (''coverImage'', BJson JNull)]],
       bookingsCollection = [],
       calls =
         [UpdateOne Vehicles 31453467242603790624579205707
           [(''vehicleName'', BJson (JStr ''Van'')), (''owner'', BJson JNull),
            (''category'', BJson JNull), (''pricePerDay'', BJson (JNum 50)),
            (''location'', BJson JNull), (''availability'', BJson JNull),
            (''description'', BJson JNull), (''coverImage'', BJson JNull)]]\<rparr>)
   \<and> fst (put_vehicle (sample_env 1700000000002 9) sample_id
        [(''vehicleName'', JStr ''Van''), (''pricePerDay'', JNum 50)]
        (snd (put_vehicle (sample_env 1700000000001 8) sample_id
           [(''vehicleName'', JStr ''Van''), (''pricePerDay'', JNum 50)] one_vehicle_db))) =
     \<lparr>status = 200,
      payload = Obj [(''success'', BJson (JBool True)),
                     (''message'', BJson (JStr ''Vehicle updated successfully'')),
                     (''modifiedCount'', BJson (JNum 0))]\<rparr>
   \<and> put_vehicle (sample_env 1700000000001 8) ''65a1b2c3d4e5f60718293a4c''
        [(''vehicleName'', JStr ''Van'')] one_vehicle_db =
     (\<lparr>status = 404,
       payload = Obj [(''success'', BJson (JBool False)),
                      (''error'', BJson (JStr ''Vehicle not found''))]\<rparr>,
      \<lparr>vehiclesCollection =
         [[(''vehicleName'', BJson (JStr ''Car'')), (''owner'', BJson (JStr ''Ann'')),
           (''userEmail'', BJson (JStr ''a@x.com'')), (''createdAt'', BDate (Ms 1700000000000)),
           (''_id'', BObjectId 31453467242603790624579205707)]],
       bookingsCollection = [],
       calls =
         [UpdateOne Vehicles 31453467242603790624579205708
           [(''vehicleName'', BJson (JStr ''Van'')), (''owner'', BJson JNull),
            (''category'', BJson JNull), (''pricePerDay'', BJson JNull),
            (''location'', BJson JNull), (''availability'', BJson JNull),
            (''description'', BJson JNull), (''coverImage'', BJson JNull)]]\<rparr>)"
  using put_vehicle_overwrites_set_fields [of "sample_env 1700000000001 8" sample_id
      "[(''vehicleName'', JStr ''Van''), (''pricePerDay'', JNum 50)]" one_vehicle_db]
    put_vehicle_overwrites_set_fields [of "sample_env 1700000000001 8"
      "''65a1b2c3d4e5f60718293a4c''" "[(''vehicleName'', JStr ''Van'')]" one_vehicle_db]
  by (simp add: update_defs sample_env_def one_vehicle_db_def sample_vehicle_def
      sample_id_valid sample_id_value absent_id_valid absent_id_value)

section \<open>Creating a vehicle\<close>

lemma serialized_vehicle:
  "serialized (with_id e (bset ''createdAt'' (BDate (Ms t)) (as_doc b))) =
   with_id e (bset ''createdAt'' (BDate (Ms t)) (as_doc b))"
  by (simp add: serialized_with_id serialized_bset serialized_as_doc)

lemma post_vehicles_missing:
  "\<not> truthy (jget b ''vehicleName'') \<or> \<not> truthy (jget b ''userEmail'') \<Longrightarrow>
   post_vehicles e b s = (json_error 400 ''vehicleName and userEmail are required'', s)"
  by (auto simp: post_vehicles_def)

lemma post_vehicles_accepted:
  "truthy (jget b ''vehicleName'') \<Longrightarrow> truthy (jget b ''userEmail'') \<Longrightarrow>
   d = with_id e (bset ''createdAt'' (BDate (Ms (Date_now e))) (as_doc b)) \<Longrightarrow>
   insert_error e Vehicles d s = None \<Longrightarrow>
   post_vehicles e b s =
     (json_ok ''Vehicle added successfully'' [(''insertedId'', id_value (bget d ''_id''))],
      s\<lparr>vehiclesCollection := vehiclesCollection s @ [d], calls := calls s @ [InsertOne Vehicles d]\<rparr>)"
  by (simp add: post_vehicles_def insertOne_accepted serialized_vehicle issue_def)

lemma post_vehicles_refused:
  "truthy (jget b ''vehicleName'') \<Longrightarrow> truthy (jget b ''userEmail'') \<Longrightarrow>
   d = with_id e (bset ''createdAt'' (BDate (Ms (Date_now e))) (as_doc b)) \<Longrightarrow>
   insert_error e Vehicles d s = Some m \<Longrightarrow>
   post_vehicles e b s =
     (json_error 500 ''Failed to add vehicle'', s\<lparr>calls := calls s @ [InsertOne Vehicles d]\<rparr>)"
  by (simp add: post_vehicles_def insertOne_refused issue_def)

text \<open>
  Claim C4, as amended. A \<open>POST /vehicles\<close> request in which \<open>vehicleName\<close> or
  \<open>userEmail\<close> is missing or empty (falsy) is answered with 400 and
  \<open>{success: false, error: "vehicleName and userEmail are required"}\<close>, and leaves the
  store as it is, with no persistence call. A request with both present and non-empty
  (truthy) makes one \<open>insertOne\<close> call with the document \<open>d\<close>: the body with \<open>createdAt\<close>
  set to the current time, and with \<open>_id\<close> the generated identifier when the body has no
  \<open>_id\<close> (or null) and the body's own \<open>_id\<close> otherwise. When the call does not throw
  (the store does not refuse it and no vehicle has that \<open>_id\<close> yet), \<open>d\<close>
  is added to the vehicles and the answer is 200 with
  \<open>{success: true, message: "Vehicle added successfully", insertedId: i}\<close>, \<open>i\<close> the \<open>_id\<close>
  of \<open>d\<close>; when it throws, the answer is 500 with
  \<open>{success: false, error: "Failed to add vehicle"}\<close> and nothing is added.
\<close>

theorem post_vehicles_validates_then_inserts:
  "(\<not> truthy (map_of b ''vehicleName'') \<or> \<not> truthy (map_of b ''userEmail'') \<longrightarrow>
      post_vehicles e b s =
        (\<lparr>status = 400,
          payload = Obj [(''success'', BJson (JBool False)),
                         (''error'', BJson (JStr ''vehicleName and userEmail are required''))]\<rparr>,
         s))
   \<and> (truthy (map_of b ''vehicleName'') \<and> truthy (map_of b ''userEmail'') \<longrightarrow>
      (\<exists>d i. map_of d ''createdAt'' = Some (BDate (Ms (Date_now e)))
        \<and> (\<forall>k. k \<noteq> ''createdAt'' \<and> k \<noteq> ''_id'' \<longrightarrow> map_of d k = map_option BJson (map_of b k))
        \<and> map_of d ''_id'' = Some i
        \<and> Some i =
            (if map_of b ''_id'' = None \<or> map_of b ''_id'' = Some JNull
             then Some (BObjectId (createPk e)) else map_option BJson (map_of b ''_id''))
        \<and> (if db_failure e (InsertOne Vehicles d) = None
               \<and> (\<forall>x\<in>set (vehiclesCollection s). map_of x ''_id'' \<noteq> Some i)
           then post_vehicles e b s =
                  (\<lparr>status = 200,
                    payload = Obj [(''success'', BJson (JBool True)),
                                   (''message'', BJson (JStr ''Vehicle added successfully'')),
                                   (''insertedId'', i)]\<rparr>,
                   s\<lparr>vehiclesCollection := vehiclesCollection s @ [d],
                      calls := calls s @ [InsertOne Vehicles d]\<rparr>)
           else post_vehicles e b s =
                  (\<lparr>status = 500,
                    payload = Obj [(''success'', BJson (JBool False)),
                                   (''error'', BJson (JStr ''Failed to add vehicle''))]\<rparr>,
                   s\<lparr>calls := calls s @ [InsertOne Vehicles d]\<rparr>))))"
proof (intro conjI impI)
  assume "\<not> truthy (map_of b ''vehicleName'') \<or> \<not> truthy (map_of b ''userEmail'')"
  then show "post_vehicles e b s =
        (\<lparr>status = 400,
          payload = Obj [(''success'', BJson (JBool False)),
                         (''error'', BJson (JStr ''vehicleName and userEmail are required''))]\<rparr>,
         s)"
    using post_vehicles_missing[where b=b and e=e and s=s] by (simp add: jget_def json_error_def)
next
  assume both: "truthy (map_of b ''vehicleName'') \<and> truthy (map_of b ''userEmail'')"
  let ?d = "with_id e (bset ''createdAt'' (BDate (Ms (Date_now e))) (as_doc b))"
  have created: "map_of ?d ''createdAt'' = Some (BDate (Ms (Date_now e)))"
    using bget_with_id[of e _ "''createdAt''"] by (simp add: bget_bset flip: bget_def)
  have other: "\<forall>k. k \<noteq> ''createdAt'' \<and> k \<noteq> ''_id'' \<longrightarrow> map_of ?d k = map_option BJson (map_of b k)"
    by (simp add: bget_with_id bget_bset bget_as_doc flip: bget_def jget_def)
  have ident: "map_of ?d ''_id'' =
            (if map_of b ''_id'' = None \<or> map_of b ''_id'' = Some JNull
             then Some (BObjectId (createPk e)) else map_option BJson (map_of b ''_id''))"
    by (auto simp: bget_with_id bget_bset bget_as_doc simp flip: bget_def jget_def)
  then have "map_of ?d ''_id'' \<noteq> None"
    by (cases "map_of b ''_id''") (auto split: if_splits)
  then obtain i where i: "map_of ?d ''_id'' = Some i"
    by blast
  have run0: "if insert_error e Vehicles ?d s = None
           then post_vehicles e b s =
                  (\<lparr>status = 200,
                    payload = Obj [(''success'', BJson (JBool True)),
                                   (''message'', BJson (JStr ''Vehicle added successfully'')),
                                   (''insertedId'', i)]\<rparr>,
                   s\<lparr>vehiclesCollection := vehiclesCollection s @ [?d],
                      calls := calls s @ [InsertOne Vehicles ?d]\<rparr>)
           else post_vehicles e b s =
                  (\<lparr>status = 500,
                    payload = Obj [(''success'', BJson (JBool False)),
                                   (''error'', BJson (JStr ''Failed to add vehicle''))]\<rparr>,
                   s\<lparr>calls := calls s @ [InsertOne Vehicles ?d]\<rparr>)"
  proof (cases "insert_error e Vehicles ?d s")
    case None
    show ?thesis
      using both i post_vehicles_accepted[where b=b and e=e and d="?d" and s=s, OF _ _ refl None]
      by (simp add: None jget_def bget_def json_ok_def)
  next
    case (Some m)
    show ?thesis
      using both post_vehicles_refused[where b=b and e=e and d="?d" and s=s, OF _ _ refl Some]
      by (simp add: Some jget_def json_error_def)
  qed
  have refusal: "(insert_error e Vehicles ?d s = None) =
      (db_failure e (InsertOne Vehicles ?d) = None
       \<and> (\<forall>x\<in>set (vehiclesCollection s). map_of x ''_id'' \<noteq> Some i))"
    using i by (force simp: insert_error_def serialized_vehicle bget_def split: option.splits)
  have run: "if db_failure e (InsertOne Vehicles ?d) = None
               \<and> (\<forall>x\<in>set (vehiclesCollection s). map_of x ''_id'' \<noteq> Some i)
           then post_vehicles e b s =
                  (\<lparr>status = 200,
                    payload = Obj [(''success'', BJson (JBool True)),
                                   (''message'', BJson (JStr ''Vehicle added successfully'')),
                                   (''insertedId'', i)]\<rparr>,
                   s\<lparr>vehiclesCollection := vehiclesCollection s @ [?d],
                      calls := calls s @ [InsertOne Vehicles ?d]\<rparr>)
           else post_vehicles e b s =
                  (\<lparr>status = 500,
                    payload = Obj [(''success'', BJson (JBool False)),
                                   (''error'', BJson (JStr ''Failed to add vehicle''))]\<rparr>,
                   s\<lparr>calls := calls s @ [InsertOne Vehicles ?d]\<rparr>)"
    using run0 unfolding refusal .
  show "\<exists>d i. map_of d ''createdAt'' = Some (BDate (Ms (Date_now e)))
        \<and> (\<forall>k. k \<noteq> ''createdAt'' \<and> k \<noteq> ''_id'' \<longrightarrow> map_of d k = map_option BJson (map_of b k))
        \<and> map_of d ''_id'' = Some i
        \<and> Some i =
            (if map_of b ''_id'' = None \<or> map_of b ''_id'' = Some JNull
             then Some (BObjectId (createPk e)) else map_option BJson (map_of b ''_id''))
        \<and> (if db_failure e (InsertOne Vehicles d) = None
               \<and> (\<forall>x\<in>set (vehiclesCollection s). map_of x ''_id'' \<noteq> Some i)
           then post_vehicles e b s =
                  (\<lparr>status = 200,
                    payload = Obj [(''success'', BJson (JBool True)),
                                   (''message'', BJson (JStr ''Vehicle added successfully'')),
                                   (''insertedId'', i)]\<rparr>,
                   s\<lparr>vehiclesCollection := vehiclesCollection s @ [d],
                      calls := calls s @ [InsertOne Vehicles d]\<rparr>)
           else post_vehicles e b s =
                  (\<lparr>status = 500,
                    payload = Obj [(''success'', BJson (JBool False)),
                                   (''error'', BJson (JStr ''Failed to add vehicle''))]\<rparr>,
                   s\<lparr>calls := calls s @ [InsertOne Vehicles d]\<rparr>))"
    using created other i ident run by (intro exI[of _ ?d] exI[of _ i]) (simp only: simp_thms)
qed

text \<open>
  Counterexample to claim C4 as stated: a body with both required fields and an \<open>_id\<close>
  of its own. On the empty store the answer carries that \<open>_id\<close> as \<open>insertedId\<close>, not the
  identifier the driver would generate (7 here); sent a second time, the same body is
  answered with 500 and the vehicles stay as they were, though both fields are present.
\<close>

theorem post_vehicles_keeps_body_id:
  "post_vehicles (sample_env 1700000000000 7)
     [(''_id'', JStr ''x''), (''vehicleName'', JStr ''Car''), (''userEmail'', JStr ''a@x.com'')]
     empty_db =
   (\<lparr>status = 200,
     payload = Obj [(''success'', BJson (JBool True)),
                    (''message'', BJson (JStr ''Vehicle added successfully'')),
                    (''insertedId'', BJson (JStr ''x''))]\<rparr>,
    \<lparr>vehiclesCollection =
       [[(''_id'', BJson (JStr ''x'')), (''vehicleName'', BJson (JStr ''Car'')),
         (''userEmail'', BJson (JStr ''a@x.com'')), (''createdAt'', BDate (Ms 1700000000000))]],
     bookingsCollection = [],
     calls =
       [InsertOne Vehicles
         [(''_id'', BJson (JStr ''x'')), (''vehicleName'', BJson (JStr ''Car'')),
          (''userEmail'', BJson (JStr ''a@x.com'')), (''createdAt'', BDate (Ms 1700000000000))]]\<rparr>)
   \<and> fst (post_vehicles (sample_env 1700000000001 8)
        [(''_id'', JStr ''x''), (''vehicleName'', JStr ''Car''), (''userEmail'', JStr ''a@x.com'')]
        (snd (post_vehicles (sample_env 1700000000000 7)
           [(''_id'', JStr ''x''), (''vehicleName'', JStr ''Car''), (''userEmail'', JStr ''a@x.com'')]
           empty_db))) =
       \<lparr>status = 500,
        payload = Obj [(''success'', BJson (JBool False)),
                       (''error'', BJson (JStr ''Failed to add vehicle''))]\<rparr>
   \<and> vehiclesCollection (snd (post_vehicles (sample_env 1700000000001 8)
        [(''_id'', JStr ''x''), (''vehicleName'', JStr ''Car''), (''userEmail'', JStr ''a@x.com'')]
        (snd (post_vehicles (sample_env 1700000000000 7)
           [(''_id'', JStr ''x''), (''vehicleName'', JStr ''Car''), (''userEmail'', JStr ''a@x.com'')]
           empty_db)))) =
       [[(''_id'', BJson (JStr ''x'')), (''vehicleName'', BJson (JStr ''Car'')),
         (''userEmail'', BJson (JStr ''a@x.com'')), (''createdAt'', BDate (Ms 1700000000000))]]"
  by (simp add: post_vehicles_def store_defs sample_defs json_ok_def json_error_def)

text \<open>The amended statement at three requests on the empty store: one without
  \<open>userEmail\<close>, one with an empty \<open>vehicleName\<close>, and one with both fields and no \<open>_id\<close>,
  which is stored under the generated identifier.\<close>

theorem post_vehicles_validates_then_inserts_witness:
  "post_vehicles (sample_env 1700000000000 7) [(''vehicleName'', JStr ''Car'')] empty_db =
     (\<lparr>status = 400,
       payload = Obj [(''success'', BJson (JBool False)),
                      (''error'', BJson (JStr ''vehicleName and userEmail are required''))]\<rparr>,
      empty_db)
   \<and> post_vehicles (sample_env 1700000000000 7)
        [(''vehicleName'', JStr ''''), (''userEmail'', JStr ''a@x.com'')] empty_db =
     (\<lparr>status = 400,
       payload = Obj [(''success'', BJson (JBool False)),
                      (''error'', BJson (JStr ''vehicleName and userEmail are required''))]\<rparr>,
      empty_db)
   \<and> truthy (map_of [(''vehicleName'', JStr ''Car''), (''userEmail'', JStr ''a@x.com'')] ''vehicleName'')
   \<and> truthy (map_of [(''vehicleName'', JStr ''Car''), (''userEmail'', JStr ''a@x.com'')] ''userEmail'')
   \<and> post_vehicles (sample_env 1700000000000 7)
        [(''vehicleName'', JStr ''Car''), (''userEmail'', JStr ''a@x.com'')] empty_db =
     (\<lparr>status = 200,
       payload = Obj [(''success'', BJson (JBool True)),
                      (''message'', BJson (JStr ''Vehicle added successfully'')),
                      (''insertedId'', BObjectId 7)]\<rparr>,
      \<lparr>vehiclesCollection =
         [[(''vehicleName'', BJson (JStr ''Car'')), (''userEmail'', BJson (JStr ''a@x.com'')),
           (''createdAt'', BDate (Ms 1700000000000)), (''_id'', BObjectId 7)]],
       bookingsCollection = [],
       calls =
         [InsertOne Vehicles
           [(''vehicleName'', BJson (JStr ''Car'')), (''userEmail'', BJson (JStr ''a@x.com'')),
            (''createdAt'', BDate (Ms 1700000000000)), (''_id'', BObjectId 7)]]\<rparr>)"
  using post_vehicles_validates_then_inserts [of "[(''vehicleName'', JStr ''Car'')]"
      "sample_env 1700000000000 7" empty_db]
    post_vehicles_validates_then_inserts [of
      "[(''vehicleName'', JStr ''''), (''userEmail'', JStr ''a@x.com'')]"
      "sample_env 1700000000000 7" empty_db]
    post_vehicles_validates_then_inserts [of
      "[(''vehicleName'', JStr ''Car''), (''userEmail'', JStr ''a@x.com'')]"
      "sample_env 1700000000000 7" empty_db]
  by (simp add: post_vehicles_def store_defs sample_defs json_ok_def json_error_def)

section \<open>Endpoints that take an identifier\<close>

lemma get_vehicle_invalid:
  "\<not> ObjectId_isValid e ident \<Longrightarrow>
   get_vehicle e ident s = (json_error 400 ''Invalid vehicle id'', s)"
  by (simp add: get_vehicle_def)

lemma get_vehicle_found:
  "ObjectId_isValid e ident \<Longrightarrow> db_failure e (FindOne Vehicles (ObjectId_new e ident)) = None \<Longrightarrow>
   get_vehicle e ident s =
     (case find (has_id (ObjectId_new e ident)) (vehiclesCollection s) of
        None \<Rightarrow> json_error 404 ''Vehicle not found''
      | Some d \<Rightarrow> \<lparr>status = 200, payload = Obj d\<rparr>,
      issue (FindOne Vehicles (ObjectId_new e ident)) s)"
  by (simp add: get_vehicle_def findOne_def Let_def split: option.splits)

lemma delete_vehicle_invalid:
  "\<not> ObjectId_isValid e ident \<Longrightarrow>
   delete_vehicle e ident s = (json_error 400 ''Invalid vehicle id'', s)"
  by (simp add: delete_vehicle_def)

lemma delete_vehicle_absent:
  "ObjectId_isValid e ident \<Longrightarrow> db_failure e (DeleteOne Vehicles (ObjectId_new e ident)) = None \<Longrightarrow>
   find (has_id (ObjectId_new e ident)) (vehiclesCollection s) = None \<Longrightarrow>
   delete_vehicle e ident s =
     (json_error 404 ''Vehicle not found'', issue (DeleteOne Vehicles (ObjectId_new e ident)) s)"
  by (simp add: delete_vehicle_def deleteOne_def Let_def)

lemma delete_booking_invalid:
  "\<not> ObjectId_isValid e ident \<Longrightarrow>
   delete_booking e ident s = (json_error 400 ''Invalid booking id'', s)"
  by (simp add: delete_booking_def)

lemma delete_booking_absent:
  "ObjectId_isValid e ident \<Longrightarrow> db_failure e (DeleteOne Bookings (ObjectId_new e ident)) = None \<Longrightarrow>
   find (has_id (ObjectId_new e ident)) (bookingsCollection s) = None \<Longrightarrow>
   delete_booking e ident s =
     (json_error 404 ''Booking not found'', issue (DeleteOne Bookings (ObjectId_new e ident)) s)"
  by (simp add: delete_booking_def deleteOne_def Let_def)

lemma identifier_endpoints_cases:
  assumes "r \<in> {GetVehicle ident, PutVehicle ident b, DeleteVehicle ident, DeleteBooking ident}"
  shows "handle_server_js e r s = handle e r s
    \<and> (\<not> ObjectId_isValid e ident \<longrightarrow>
         handle e r s =
           (json_error 400
              (if r = DeleteBooking ident then ''Invalid booking id'' else ''Invalid vehicle id''), s))
    \<and> (ObjectId_isValid e ident \<and> (\<forall>c. db_failure e c = None) \<and>
        (\<forall>d\<in>set (docs_of (if r = DeleteBooking ident then Bookings else Vehicles) s).
            \<not> has_id (ObjectId_new e ident) d) \<longrightarrow>
         fst (handle e r s) =
           json_error 404
             (if r = DeleteBooking ident then ''Booking not found'' else ''Vehicle not found'')
         \<and> vehiclesCollection (snd (handle e r s)) = vehiclesCollection s
         \<and> bookingsCollection (snd (handle e r s)) = bookingsCollection s)
    \<and> (ObjectId_isValid e ident \<and> (\<forall>c. db_failure e c = None) \<and> r = GetVehicle ident \<and>
        (\<exists>d\<in>set (vehiclesCollection s). has_id (ObjectId_new e ident) d) \<longrightarrow>
         (\<exists>d\<in>set (vehiclesCollection s). has_id (ObjectId_new e ident) d \<and>
            fst (handle e r s) = \<lparr>status = 200, payload = Obj d\<rparr>))"
proof -
  from assms consider (get) "r = GetVehicle ident" | (put) "r = PutVehicle ident b"
    | (del) "r = DeleteVehicle ident" | (delb) "r = DeleteBooking ident"
    by blast
  then show ?thesis
  proof cases
    case get
    have found: "ObjectId_isValid e ident \<Longrightarrow> \<forall>c. db_failure e c = None \<Longrightarrow>
        \<exists>d\<in>set (vehiclesCollection s). has_id (ObjectId_new e ident) d \<Longrightarrow>
        \<exists>d\<in>set (vehiclesCollection s). has_id (ObjectId_new e ident) d \<and>
            fst (get_vehicle e ident s) = \<lparr>status = 200, payload = Obj d\<rparr>"
    proof -
      assume v: "ObjectId_isValid e ident" and ok: "\<forall>c. db_failure e c = None"
        and ex: "\<exists>d\<in>set (vehiclesCollection s). has_id (ObjectId_new e ident) d"
      from ex obtain d where d: "find (has_id (ObjectId_new e ident)) (vehiclesCollection s) = Some d"
        by (cases "find (has_id (ObjectId_new e ident)) (vehiclesCollection s)")
           (auto simp: find_None_iff_all)
      from find_split[OF d] have "d \<in> set (vehiclesCollection s)" "has_id (ObjectId_new e ident) d"
        by auto
      then show ?thesis using v ok d by (auto simp: get_vehicle_found)
    qed
    have absent: "ObjectId_isValid e ident \<Longrightarrow> \<forall>c. db_failure e c = None \<Longrightarrow>
        \<forall>d\<in>set (vehiclesCollection s). \<not> has_id (ObjectId_new e ident) d \<Longrightarrow>
        get_vehicle e ident s =
          (json_error 404 ''Vehicle not found'', issue (FindOne Vehicles (ObjectId_new e ident)) s)"
      by (simp add: get_vehicle_found find_None_iff_all[symmetric])
    show ?thesis using get found absent by (auto simp: get_vehicle_invalid)
  next
    case put
    have absent: "ObjectId_isValid e ident \<Longrightarrow> \<forall>c. db_failure e c = None \<Longrightarrow>
        \<forall>d\<in>set (vehiclesCollection s). \<not> has_id (ObjectId_new e ident) d \<Longrightarrow>
        put_vehicle e ident b s =
          (json_error 404 ''Vehicle not found'',
           issue (UpdateOne Vehicles (ObjectId_new e ident) (updateDoc b)) s)"
      by (simp add: put_vehicle_absent find_None_iff_all[symmetric])
    show ?thesis using put absent by (auto simp: put_vehicle_invalid)
  next
    case del
    have absent: "ObjectId_isValid e ident \<Longrightarrow> \<forall>c. db_failure e c = None \<Longrightarrow>
        \<forall>d\<in>set (vehiclesCollection s). \<not> has_id (ObjectId_new e ident) d \<Longrightarrow>
        delete_vehicle e ident s =
          (json_error 404 ''Vehicle not found'', issue (DeleteOne Vehicles (ObjectId_new e ident)) s)"
      by (simp add: delete_vehicle_absent find_None_iff_all[symmetric])
    show ?thesis using del absent by (auto simp: delete_vehicle_invalid)
  next
    case delb
    have absent: "ObjectId_isValid e ident \<Longrightarrow> \<forall>c. db_failure e c = None \<Longrightarrow>
        \<forall>d\<in>set (bookingsCollection s). \<not> has_id (ObjectId_new e ident) d \<Longrightarrow>
        delete_booking e ident s =
          (json_error 404 ''Booking not found'', issue (DeleteOne Bookings (ObjectId_new e ident)) s)"
      by (simp add: delete_booking_absent find_None_iff_all[symmetric])
    show ?thesis using delb absent by (auto simp: delete_booking_invalid)
  qed
qed

text \<open>
  Claim C5. For each of \<open>GET /vehicles/:id\<close>, \<open>PUT /vehicles/:id\<close>,
  \<open>DELETE /vehicles/:id\<close> and \<open>DELETE /bookings/:id\<close>, in both copies of the server, and
  every identifier string: when \<open>ObjectId.isValid\<close> refuses the identifier, the answer
  is 400 with \<open>{success: false, error: "Invalid vehicle id"}\<close> ("Invalid booking id" for a
  booking) and the store, with its record of persistence calls, is as before (no call is
  made); when the identifier is valid, the persistence call does not fail and no document
  of the collection has that identifier, the answer is 404 with
  \<open>{success: false, error: "Vehicle not found"}\<close> ("Booking not found") and both
  collections are unchanged; and when \<open>GET /vehicles/:id\<close> finds a document with the
  identifier, the answer is 200 with that whole document.
\<close>

theorem identifier_endpoints:
  assumes "r \<in> {GetVehicle ident, PutVehicle ident b, DeleteVehicle ident, DeleteBooking ident}"
  shows "handle_server_js e r s = handle e r s
    \<and> (\<not> ObjectId_isValid e ident \<longrightarrow>
         handle e r s =
           (\<lparr>status = 400,
             payload = Obj [(''success'', BJson (JBool False)),
                            (''error'', BJson (JStr (if r = DeleteBooking ident
                                                     then ''Invalid booking id''
                                                     else ''Invalid vehicle id'')))]\<rparr>, s))
    \<and> (ObjectId_isValid e ident \<and> (\<forall>c. db_failure e c = None) \<and>
        (\<forall>d\<in>set (docs_of (if r = DeleteBooking ident then Bookings else Vehicles) s).
            \<not> has_id (ObjectId_new e ident) d) \<longrightarrow>
         fst (handle e r s) =
           \<lparr>status = 404,
            payload = Obj [(''success'', BJson (JBool False)),
                           (''error'', BJson (JStr (if r = DeleteBooking ident
                                                    then ''Booking not found''
                                                    else ''Vehicle not found'')))]\<rparr>
         \<and> vehiclesCollection (snd (handle e r s)) = vehiclesCollection s
         \<and> bookingsCollection (snd (handle e r s)) = bookingsCollection s)
    \<and> (ObjectId_isValid e ident \<and> (\<forall>c. db_failure e c = None) \<and> r = GetVehicle ident \<and>
        (\<exists>d\<in>set (vehiclesCollection s). has_id (ObjectId_new e ident) d) \<longrightarrow>
         (\<exists>d\<in>set (vehiclesCollection s). has_id (ObjectId_new e ident) d \<and>
            fst (handle e r s) = \<lparr>status = 200, payload = Obj d\<rparr>))"
  using identifier_endpoints_cases[OF assms, of e s] by (simp add: json_error_def)

lemmas read_defs = get_vehicle_def findOne_def delete_booking_def deleteOne_def has_id_def
  issue_def bget_def Let_def json_error_def

text \<open>Claim C5 at the identifier "abc" (400, store untouched), at a well-formed identifier
  on stores where no document has it (404 from each of the four endpoints' kind) and at
  the identifier of the stored vehicle (the document).\<close>

theorem identifier_endpoints_witness:
  "\<not> ObjectId_isValid (sample_env 1700000000001 8) ''abc''
   \<and> handle (sample_env 1700000000001 8) (GetVehicle ''abc'') one_vehicle_db =
       (\<lparr>status = 400,
         payload = Obj [(''success'', BJson (JBool False)),
                        (''error'', BJson (JStr ''Invalid vehicle id''))]\<rparr>, one_vehicle_db)
   \<and> handle (sample_env 1700000000001 8) (DeleteBooking ''abc'') one_vehicle_db =
       (\<lparr>status = 400,
         payload = Obj [(''success'', BJson (JBool False)),
                        (''error'', BJson (JStr ''Invalid booking id''))]\<rparr>, one_vehicle_db)
   \<and> ObjectId_isValid (sample_env 1700000000001 8) sample_id
   \<and> fst (handle (sample_env 1700000000001 8) (DeleteBooking sample_id) one_vehicle_db) =
       \<lparr>status = 404,
        payload = Obj [(''success'', BJson (JBool False)),
                       (''error'', BJson (JStr ''Booking not found''))]\<rparr>
   \<and> fst (handle (sample_env 1700000000001 8) (GetVehicle sample_id) empty_db) =
       \<lparr>status = 404,
        payload = Obj [(''success'', BJson (JBool False)),
                       (''error'', BJson (JStr ''Vehicle not found''))]\<rparr>
   \<and> has_id (ObjectId_new (sample_env 1700000000001 8) sample_id) sample_vehicle
   \<and> fst (handle (sample_env 1700000000001 8) (GetVehicle sample_id) one_vehicle_db) =
       \<lparr>status = 200,
        payload = Obj [(''vehicleName'', BJson (JStr ''Car'')), (''owner'', BJson (JStr ''Ann'')),
                       (''userEmail'', BJson (JStr ''a@x.com'')),
                       (''createdAt'', BDate (Ms 1700000000000)),
                       (''_id'', BObjectId 31453467242603790624579205707)]\<rparr>"
  using identifier_endpoints [of "GetVehicle ''abc''" "''abc''" "[]"
      "sample_env 1700000000001 8" one_vehicle_db]
    identifier_endpoints [of "DeleteBooking ''abc''" "''abc''" "[]"
      "sample_env 1700000000001 8" one_vehicle_db]
    identifier_endpoints [of "DeleteBooking sample_id" sample_id "[]"
      "sample_env 1700000000001 8" one_vehicle_db]
    identifier_endpoints [of "GetVehicle sample_id" sample_id "[]"
      "sample_env 1700000000001 8" empty_db]
    identifier_endpoints [of "GetVehicle sample_id" sample_id "[]"
      "sample_env 1700000000001 8" one_vehicle_db]
  by (simp add: read_defs sample_env_def one_vehicle_db_def empty_db_def sample_vehicle_def
      sample_id_valid sample_id_value abc_invalid)

section \<open>Listings\<close>














text \<open>Every vehicle the handlers store has a valid date as \<open>createdAt\<close>: this holds of
  the empty store, and each handler of either copy keeps it.\<close>

lemma dated_update_first:
  assumes "\<forall>d\<in>set ds. \<exists>t. bget d ''createdAt'' = Some (BDate (Ms t))"
  shows "\<forall>d\<in>set (update_first i (updateDoc b) ds). \<exists>t. bget d ''createdAt'' = Some (BDate (Ms t))"
  using assms
proof (induction ds)
  case Nil
  then show ?case by simp
next
  case (Cons a ds)
  have "''createdAt'' \<notin> set set_fields" by (simp add: set_fields_def)
  then have "bget (apply_set (updateDoc b) a) ''createdAt'' = bget a ''createdAt''"
    by (rule bget_updateDoc_other)
  with Cons show ?case by auto
qed

lemma dated_delete_first:
  "\<forall>d\<in>set ds. P d \<Longrightarrow> \<forall>d\<in>set (delete_first i ds). P d"
  by (induction ds) auto

lemma vehicles_keep_createdAt:
  assumes "\<forall>d\<in>set (vehiclesCollection s). \<exists>t. bget d ''createdAt'' = Some (BDate (Ms t))"
  shows "\<forall>d\<in>set (vehiclesCollection (snd (handle e r s))).
           \<exists>t. bget d ''createdAt'' = Some (BDate (Ms t))"
proof (cases r)
  case GetRoot
  then show ?thesis using assms by (simp add: get_root_def)
next
  case GetVehicles
  then show ?thesis using assms
    by (simp add: get_vehicles_def find_sorted_def Let_def split: option.splits)
next
  case (PostVehicles b)
  show ?thesis
  proof (cases "insert_error e Vehicles
      (with_id e (bset ''createdAt'' (BDate (Ms (Date_now e))) (as_doc b))) s")
    case None
    then show ?thesis using assms PostVehicles
      by (auto simp: post_vehicles_def insertOne_accepted put_docs_issue serialized_vehicle
          bget_with_id bget_bset)
  next
    case (Some m)
    then show ?thesis using assms PostVehicles
      by (auto simp: post_vehicles_def insertOne_refused)
  qed
next
  case (GetVehicle i)
  then show ?thesis using assms
    by (simp add: get_vehicle_def findOne_def Let_def split: option.splits)
next
  case (GetMyVehicles q)
  then show ?thesis using assms
    by (simp add: get_my_vehicles_def find_sorted_def Let_def split: option.splits)
next
  case (PutVehicle i b)
  from put_vehicle_cases[of e i b s] dated_update_first[OF assms]
  show ?thesis using assms PutVehicle by auto
next
  case (DeleteVehicle i)
  then show ?thesis using assms dated_delete_first[OF assms]
    by (auto simp: delete_vehicle_def deleteOne_def Let_def split: option.splits)
next
  case (PostBookings b)
  then show ?thesis using assms
    by (auto simp: post_bookings_def insertOne_def Let_def split: option.splits)
next
  case (GetMyBookings q)
  then show ?thesis using assms
    by (simp add: get_my_bookings_def find_sorted_def Let_def split: option.splits)
next
  case (DeleteBooking i)
  then show ?thesis using assms
    by (auto simp: delete_booking_def deleteOne_def Let_def split: option.splits)
qed

lemma vehicles_keep_createdAt_server_js:
  assumes "\<forall>d\<in>set (vehiclesCollection s). \<exists>t. bget d ''createdAt'' = Some (BDate (Ms t))"
  shows "\<forall>d\<in>set (vehiclesCollection (snd (handle_server_js e r s))).
           \<exists>t. bget d ''createdAt'' = Some (BDate (Ms t))"
proof (cases r)
  case GetVehicles
  then show ?thesis using assms
    by (simp add: get_vehicles_server_js_def find_sorted_def Let_def split: option.splits)
next
  case (PostBookings b)
  then show ?thesis using assms
    by (auto simp: post_bookings_server_js_def insertOne_def Let_def split: option.splits)
qed (use vehicles_keep_createdAt[OF assms, of e r] in simp_all)




section \<open>Creating a booking\<close>

lemma normalized_Some:
  "normalized e b = Some d0 \<longleftrightarrow>
   (\<exists>t1 t2. new_Date (Date_parse e) (jget b ''startDate'') = Some t1
          \<and> new_Date (Date_parse e) (jget b ''endDate'') = Some t2
          \<and> d0 = bset ''endDate'' (BDate t2) (bset ''startDate'' (BDate t1) (as_doc b)))"
  by (auto simp: normalized_def split: option.splits)


lemma post_bookings_thrown:
  "bookings_required b \<Longrightarrow> normalized e b = None \<Longrightarrow>
   post_bookings e b s = (json_error 400 ''Invalid date format for startDate or endDate'', s)"
  by (simp add: post_bookings_def)

lemma post_bookings_refused:
  "bookings_required b \<Longrightarrow> normalized e b = Some d0 \<Longrightarrow>
   insert_error e Bookings (with_id e (stamp e b d0)) s = Some m \<Longrightarrow>
   post_bookings e b s =
     (json_error 500 ''Failed to create booking'',
      issue (InsertOne Bookings (with_id e (stamp e b d0))) s)"
  by (simp add: post_bookings_def insertOne_refused)


lemma post_bookings_server_js_refused:
  "bookings_required b \<Longrightarrow>
   insert_error e Bookings (with_id e (stamp e b (as_doc b))) s = Some m \<Longrightarrow>
   post_bookings_server_js e b s =
     (json_error 500 ''Failed to create booking'',
      issue (InsertOne Bookings (with_id e (stamp e b (as_doc b)))) s)"
  by (simp add: post_bookings_server_js_def insertOne_refused)

lemma bget_stamp:
  "bget (stamp e b d) k =
     (if k = ''createdAt'' then Some (BDate (Ms (Date_now e)))
      else if k = ''status'' then Some (BJson (or_else (jget b ''status'') (JStr ''pending'')))
      else bget d k)"
  by (simp add: stamp_def bget_bset)

lemmas booking_defs = post_bookings_def post_bookings_server_js_def bookings_required_def
  normalized_def stamp_def

lemma wire_date: "wire (BDate t) = BDate (case t of NaN \<Rightarrow> Ms 0 | Ms n \<Rightarrow> Ms n)"
  by (cases t) auto

lemma serialized_stamp: "serialized (stamp e b d) = stamp e b (serialized d)"
  by (simp add: stamp_def serialized_bset)

lemma serialized_server_doc:
  "serialized (with_id e (stamp e b (as_doc b))) = with_id e (stamp e b (as_doc b))"
  by (simp add: serialized_with_id serialized_stamp serialized_as_doc)

lemma post_bookings_accepted:
  "bookings_required b \<Longrightarrow> normalized e b = Some d0 \<Longrightarrow>
   insert_error e Bookings (with_id e (stamp e b d0)) s = None \<Longrightarrow>
   post_bookings e b s =
     (json_ok ''Booking created successfully''
        [(''bookingId'', id_value (bget (with_id e (stamp e b d0)) ''_id''))],
      (issue (InsertOne Bookings (with_id e (stamp e b d0))) s)
        \<lparr>bookingsCollection := bookingsCollection s @ [serialized (with_id e (stamp e b d0))]\<rparr>)"
  by (simp add: post_bookings_def insertOne_accepted put_docs_issue)

lemma post_bookings_server_js_accepted:
  "bookings_required b \<Longrightarrow>
   insert_error e Bookings (with_id e (stamp e b (as_doc b))) s = None \<Longrightarrow>
   post_bookings_server_js e b s =
     (json_ok ''Booking created successfully''
        [(''bookingId'', id_value (bget (with_id e (stamp e b (as_doc b))) ''_id''))],
      (issue (InsertOne Bookings (with_id e (stamp e b (as_doc b)))) s)
        \<lparr>bookingsCollection := bookingsCollection s @ [with_id e (stamp e b (as_doc b))]\<rparr>)"
  by (simp add: post_bookings_server_js_def insertOne_accepted put_docs_issue
      serialized_server_doc)

text \<open>The fields of the document \<open>part_000\<close> stores, and of the one \<open>server.js\<close> stores.\<close>

lemma stored_booking:
  assumes "new_Date (Date_parse e) (jget b ''startDate'') = Some t1"
    and "new_Date (Date_parse e) (jget b ''endDate'') = Some t2"
    and "d0 = bset ''endDate'' (BDate t2) (bset ''startDate'' (BDate t1) (as_doc b))"
  shows "bget (serialized (with_id e (stamp e b d0))) k =
     (if k = ''createdAt'' then Some (BDate (Ms (Date_now e)))
      else if k = ''status'' then Some (BJson (or_else (jget b ''status'') (JStr ''pending'')))
      else if k = ''endDate'' then Some (BDate (case t2 of NaN \<Rightarrow> Ms 0 | Ms n \<Rightarrow> Ms n))
      else if k = ''startDate'' then Some (BDate (case t1 of NaN \<Rightarrow> Ms 0 | Ms n \<Rightarrow> Ms n))
      else if k = ''_id'' \<and> (jget b ''_id'' = None \<or> jget b ''_id'' = Some JNull)
      then Some (BObjectId (createPk e))
      else map_option BJson (jget b k))"
  unfolding assms(3)
  by (auto simp: serialized_with_id serialized_stamp serialized_bset serialized_as_doc
      bget_with_id bget_stamp bget_bset bget_as_doc wire_date)

lemma stored_booking_server_js:
  "bget (with_id e (stamp e b (as_doc b))) k =
     (if k = ''createdAt'' then Some (BDate (Ms (Date_now e)))
      else if k = ''status'' then Some (BJson (or_else (jget b ''status'') (JStr ''pending'')))
      else if k = ''_id'' \<and> (jget b ''_id'' = None \<or> jget b ''_id'' = Some JNull)
      then Some (BObjectId (createPk e))
      else map_option BJson (jget b k))"
  by (auto simp: bget_with_id bget_stamp bget_as_doc)

lemma handed_booking_id:
  assumes "d0 = bset ''endDate'' (BDate t2) (bset ''startDate'' (BDate t1) (as_doc b))"
  shows "bget (with_id e (stamp e b d0)) ''_id'' = bget (with_id e (stamp e b (as_doc b))) ''_id''"
  unfolding assms by (auto simp: bget_with_id bget_stamp bget_bset)

section \<open>Booking creation and unparsable dates\<close>

text \<open>
  Claim C1 says that a \<open>POST /bookings\<close> request whose four required fields are present
  and whose \<open>startDate\<close> or \<open>endDate\<close> does not parse as a date is answered with 400
  "Invalid date format for startDate or endDate" and stores nothing.

  The handlers do otherwise on the body
  \<open>{vehicleId: "v1", userEmail: "a@x.com", startDate: "garbage", endDate: "2024-01-05"}\<close>:
  \<open>new Date("garbage")\<close> does not throw, it is an Invalid Date, so the \<open>catch\<close> of
  \<open>part_000\<close> is not entered; the booking is handed to the driver with an invalid
  \<open>startDate\<close>, which is written as the epoch, and the answer is 200. \<open>server.js\<close> has no
  date check and stores the string. (That no string date is ever refused, whatever
  \<open>Date.parse\<close> returns, is lemma \<open>string_dates_always_inserted\<close> below.)
\<close>

theorem post_bookings_unparsable_date_stored:
  "post_bookings (sample_env 1700000000000 7)
     [(''vehicleId'', JStr ''v1''), (''userEmail'', JStr ''a@x.com''),
      (''startDate'', JStr ''garbage''), (''endDate'', JStr ''2024-01-05'')] empty_db =
   (\<lparr>status = 200,
     payload = Obj [(''success'', BJson (JBool True)),
                    (''message'', BJson (JStr ''Booking created successfully'')),
                    (''bookingId'', BObjectId 7)]\<rparr>,
    \<lparr>vehiclesCollection = [],
     bookingsCollection =
       [[(''vehicleId'', BJson (JStr ''v1'')), (''userEmail'', BJson (JStr ''a@x.com'')),
         (''startDate'', BDate (Ms 0)), (''endDate'', BDate (Ms 1704412800000)),
         (''status'', BJson (JStr ''pending'')), (''createdAt'', BDate (Ms 1700000000000)),
         (''_id'', BObjectId 7)]],
     calls =
       [InsertOne Bookings
         [(''vehicleId'', BJson (JStr ''v1'')), (''userEmail'', BJson (JStr ''a@x.com'')),
          (''startDate'', BDate NaN), (''endDate'', BDate (Ms 1704412800000)),
          (''status'', BJson (JStr ''pending'')), (''createdAt'', BDate (Ms 1700000000000)),
          (''_id'', BObjectId 7)]]\<rparr>)
   \<and> post_bookings_server_js (sample_env 1700000000000 7)
     [(''vehicleId'', JStr ''v1''), (''userEmail'', JStr ''a@x.com''),
      (''startDate'', JStr ''garbage''), (''endDate'', JStr ''2024-01-05'')] empty_db =
   (\<lparr>status = 200,
     payload = Obj [(''success'', BJson (JBool True)),
                    (''message'', BJson (JStr ''Booking created successfully'')),
                    (''bookingId'', BObjectId 7)]\<rparr>,
    \<lparr>vehiclesCollection = [],
     bookingsCollection =
       [[(''vehicleId'', BJson (JStr ''v1'')), (''userEmail'', BJson (JStr ''a@x.com'')),
         (''startDate'', BJson (JStr ''garbage'')), (''endDate'', BJson (JStr ''2024-01-05'')),
         (''status'', BJson (JStr ''pending'')), (''createdAt'', BDate (Ms 1700000000000)),
         (''_id'', BObjectId 7)]],
     calls =
       [InsertOne Bookings
         [(''vehicleId'', BJson (JStr ''v1'')), (''userEmail'', BJson (JStr ''a@x.com'')),
          (''startDate'', BJson (JStr ''garbage'')), (''endDate'', BJson (JStr ''2024-01-05'')),
          (''status'', BJson (JStr ''pending'')), (''createdAt'', BDate (Ms 1700000000000)),
          (''_id'', BObjectId 7)]]\<rparr>)"
  by (simp add: post_bookings_def post_bookings_server_js_def bookings_required_def
      normalized_def stamp_def store_defs sample_defs json_ok_def)

text \<open>
  Whatever \<open>Date.parse\<close> makes of them, string dates never reach the inner \<open>catch\<close> of
  \<open>part_000\<close>: a request that passes the presence check with strings as \<open>startDate\<close> and
  \<open>endDate\<close> is never answered with 400, and the insert is always issued, with the two
  \<open>Date\<close> objects the parser gave, valid or not.
\<close>

lemma string_dates_always_inserted:
  assumes "bookings_required b"
    and "jget b ''startDate'' = Some (JStr x)" and "jget b ''endDate'' = Some (JStr y)"
  shows "status (fst (post_bookings e b s)) \<noteq> 400
    \<and> calls (snd (post_bookings e b s)) =
        calls s @ [InsertOne Bookings
          (with_id e (stamp e b
             (bset ''endDate'' (BDate (Date_parse e y))
                (bset ''startDate'' (BDate (Date_parse e x)) (as_doc b)))))]"
proof -
  let ?d0 = "bset ''endDate'' (BDate (Date_parse e y))
                (bset ''startDate'' (BDate (Date_parse e x)) (as_doc b))"
  have n: "normalized e b = Some ?d0"
    using assms(2,3) by (simp add: normalized_def)
  show ?thesis
  proof (cases "insert_error e Bookings (with_id e (stamp e b ?d0)) s")
    case None
    show ?thesis by (simp add: post_bookings_accepted[OF assms(1) n None])
  next
    case (Some m)
    show ?thesis by (simp add: post_bookings_refused[OF assms(1) n Some])
  qed
qed

section \<open>The stored booking\<close>

lemma required_fields:
  "bookings_required b \<longleftrightarrow>
   (\<forall>k\<in>set [''vehicleId'', ''userEmail'', ''startDate'', ''endDate'']. truthy (map_of b k))"
  by (auto simp: bookings_required_def jget_def)

lemma truthy_Some: "truthy x \<Longrightarrow> \<exists>v. x = Some v"
  by (cases x) auto

text \<open>
  Claim C7, as amended. The claim says that the stored booking has \<open>startDate\<close> and
  \<open>endDate\<close> normalized to date values; that holds of \<open>part_000\<close> and not of
  \<open>server.js\<close>. For every \<open>POST /bookings\<close> request with the four required fields present
  and no \<open>status\<close> field: when \<open>part_000\<close> answers 200, the collection has one more
  document, whose \<open>status\<close> is "pending", whose \<open>createdAt\<close> is the time of the request,
  and whose \<open>startDate\<close> and \<open>endDate\<close> are dates: the time the \<open>Date\<close> constructor gave
  for the request's value, and the epoch when that was an Invalid Date. When \<open>server.js\<close>
  answers 200, the collection has one more document with the same \<open>status\<close> and
  \<open>createdAt\<close>, whose \<open>startDate\<close> and \<open>endDate\<close> are the JSON values of the request,
  unchanged. With any other answer no booking is stored.
\<close>

theorem post_bookings_stored_document:
  assumes "\<forall>k\<in>set [''vehicleId'', ''userEmail'', ''startDate'', ''endDate'']. truthy (map_of b k)"
    and "map_of b ''status'' = None"
  shows "(status (fst (post_bookings e b s)) = 200 \<longrightarrow>
         (\<exists>d t1 t2.
            bookingsCollection (snd (post_bookings e b s)) = bookingsCollection s @ [d]
            \<and> map_of d ''status'' = Some (BJson (JStr ''pending''))
            \<and> map_of d ''createdAt'' = Some (BDate (Ms (Date_now e)))
            \<and> new_Date (Date_parse e) (map_of b ''startDate'') = Some t1
            \<and> map_of d ''startDate'' = Some (BDate (case t1 of NaN \<Rightarrow> Ms 0 | Ms n \<Rightarrow> Ms n))
            \<and> new_Date (Date_parse e) (map_of b ''endDate'') = Some t2
            \<and> map_of d ''endDate'' = Some (BDate (case t2 of NaN \<Rightarrow> Ms 0 | Ms n \<Rightarrow> Ms n))))
    \<and> (status (fst (post_bookings e b s)) \<noteq> 200 \<longrightarrow>
         bookingsCollection (snd (post_bookings e b s)) = bookingsCollection s)
    \<and> (status (fst (post_bookings_server_js e b s)) = 200 \<longrightarrow>
         (\<exists>d v1 v2.
            bookingsCollection (snd (post_bookings_server_js e b s)) = bookingsCollection s @ [d]
            \<and> map_of d ''status'' = Some (BJson (JStr ''pending''))
            \<and> map_of d ''createdAt'' = Some (BDate (Ms (Date_now e)))
            \<and> map_of b ''startDate'' = Some v1 \<and> map_of d ''startDate'' = Some (BJson v1)
            \<and> map_of b ''endDate'' = Some v2 \<and> map_of d ''endDate'' = Some (BJson v2)))
    \<and> (status (fst (post_bookings_server_js e b s)) \<noteq> 200 \<longrightarrow>
         bookingsCollection (snd (post_bookings_server_js e b s)) = bookingsCollection s)"
proof -
  have req: "bookings_required b"
    using assms(1) by (simp only: required_fields)
  have nostatus: "jget b ''status'' = None"
    using assms(2) by (simp add: jget_def)
  obtain v1 v2 where v1: "map_of b ''startDate'' = Some v1" and v2: "map_of b ''endDate'' = Some v2"
    using assms(1) truthy_Some[of "map_of b ''startDate''"] truthy_Some[of "map_of b ''endDate''"]
    by auto
  have server: "(status (fst (post_bookings_server_js e b s)) = 200 \<longrightarrow>
         (\<exists>d v1 v2.
            bookingsCollection (snd (post_bookings_server_js e b s)) = bookingsCollection s @ [d]
            \<and> map_of d ''status'' = Some (BJson (JStr ''pending''))
            \<and> map_of d ''createdAt'' = Some (BDate (Ms (Date_now e)))
            \<and> map_of b ''startDate'' = Some v1 \<and> map_of d ''startDate'' = Some (BJson v1)
            \<and> map_of b ''endDate'' = Some v2 \<and> map_of d ''endDate'' = Some (BJson v2)))
    \<and> (status (fst (post_bookings_server_js e b s)) \<noteq> 200 \<longrightarrow>
         bookingsCollection (snd (post_bookings_server_js e b s)) = bookingsCollection s)"
  proof (cases "insert_error e Bookings (with_id e (stamp e b (as_doc b))) s")
    case None
    let ?d = "with_id e (stamp e b (as_doc b))"
    have "map_of ?d ''status'' = Some (BJson (JStr ''pending''))"
      "map_of ?d ''createdAt'' = Some (BDate (Ms (Date_now e)))"
      "map_of ?d ''startDate'' = Some (BJson v1)" "map_of ?d ''endDate'' = Some (BJson v2)"
      using stored_booking_server_js[of e b] nostatus v1 v2
      by (simp_all add: bget_def jget_def)
    then show ?thesis
      using v1 v2 by (simp add: post_bookings_server_js_accepted[OF req None])
  next
    case (Some m)
    show ?thesis by (simp add: post_bookings_server_js_refused[OF req Some])
  qed
  have part: "(status (fst (post_bookings e b s)) = 200 \<longrightarrow>
         (\<exists>d t1 t2.
            bookingsCollection (snd (post_bookings e b s)) = bookingsCollection s @ [d]
            \<and> map_of d ''status'' = Some (BJson (JStr ''pending''))
            \<and> map_of d ''createdAt'' = Some (BDate (Ms (Date_now e)))
            \<and> new_Date (Date_parse e) (map_of b ''startDate'') = Some t1
            \<and> map_of d ''startDate'' = Some (BDate (case t1 of NaN \<Rightarrow> Ms 0 | Ms n \<Rightarrow> Ms n))
            \<and> new_Date (Date_parse e) (map_of b ''endDate'') = Some t2
            \<and> map_of d ''endDate'' = Some (BDate (case t2 of NaN \<Rightarrow> Ms 0 | Ms n \<Rightarrow> Ms n))))
    \<and> (status (fst (post_bookings e b s)) \<noteq> 200 \<longrightarrow>
         bookingsCollection (snd (post_bookings e b s)) = bookingsCollection s)"
  proof (cases "normalized e b")
    case None
    show ?thesis by (simp add: post_bookings_thrown[OF req None])
  next
    case (Some d0)
    then obtain t1 t2 where
      t1: "new_Date (Date_parse e) (jget b ''startDate'') = Some t1"
      and t2: "new_Date (Date_parse e) (jget b ''endDate'') = Some t2"
      and d0: "d0 = bset ''endDate'' (BDate t2) (bset ''startDate'' (BDate t1) (as_doc b))"
      by (auto simp: normalized_Some)
    let ?d = "serialized (with_id e (stamp e b d0))"
    show ?thesis
    proof (cases "insert_error e Bookings (with_id e (stamp e b d0)) s")
      case ok: None
      have "map_of ?d ''status'' = Some (BJson (JStr ''pending''))"
        "map_of ?d ''createdAt'' = Some (BDate (Ms (Date_now e)))"
        "map_of ?d ''startDate'' = Some (BDate (case t1 of NaN \<Rightarrow> Ms 0 | Ms n \<Rightarrow> Ms n))"
        "map_of ?d ''endDate'' = Some (BDate (case t2 of NaN \<Rightarrow> Ms 0 | Ms n \<Rightarrow> Ms n))"
        using stored_booking[OF t1 t2 d0] nostatus by (simp_all add: bget_def)
      then show ?thesis
        using t1 t2 by (simp add: post_bookings_accepted[OF req Some ok] jget_def)
    next
      case refused: (Some m)
      show ?thesis by (simp add: post_bookings_refused[OF req Some refused])
    qed
  qed
  from part server show ?thesis by blast
qed

text \<open>
  Counterexample to claim C7 as stated: on the request
  \<open>{vehicleId: "v1", userEmail: "a@x.com", startDate: "2024-01-01", endDate: "2024-01-05"}\<close>
  with no \<open>status\<close>, \<open>server.js\<close> answers 200 and the stored \<open>startDate\<close> and \<open>endDate\<close>
  are the two strings, not date values.
\<close>

theorem server_js_stores_dates_as_received:
  "post_bookings_server_js (sample_env 1700000000000 7) sample_booking empty_db =
   (\<lparr>status = 200,
     payload = Obj [(''success'', BJson (JBool True)),
                    (''message'', BJson (JStr ''Booking created successfully'')),
                    (''bookingId'', BObjectId 7)]\<rparr>,
    \<lparr>vehiclesCollection = [],
     bookingsCollection =
       [[(''vehicleId'', BJson (JStr ''v1'')), (''userEmail'', BJson (JStr ''a@x.com'')),
         (''startDate'', BJson (JStr ''2024-01-01'')), (''endDate'', BJson (JStr ''2024-01-05'')),
         (''status'', BJson (JStr ''pending'')), (''createdAt'', BDate (Ms 1700000000000)),
         (''_id'', BObjectId 7)]],
     calls =
       [InsertOne Bookings
         [(''vehicleId'', BJson (JStr ''v1'')), (''userEmail'', BJson (JStr ''a@x.com'')),
          (''startDate'', BJson (JStr ''2024-01-01'')), (''endDate'', BJson (JStr ''2024-01-05'')),
          (''status'', BJson (JStr ''pending'')), (''createdAt'', BDate (Ms 1700000000000)),
          (''_id'', BObjectId 7)]]\<rparr>)"
  by (simp add: booking_defs store_defs sample_defs sample_booking_def json_ok_def)

text \<open>The amended statement at that request, in \<open>part_000\<close> and in \<open>server.js\<close>, and at
  a request of \<open>part_000\<close> whose \<open>endDate\<close> does not parse: the stored \<open>endDate\<close> is the
  epoch.\<close>

theorem post_bookings_stored_document_witness:
  "truthy (map_of sample_booking ''vehicleId'') \<and> truthy (map_of sample_booking ''userEmail'')
   \<and> truthy (map_of sample_booking ''startDate'') \<and> truthy (map_of sample_booking ''endDate'')
   \<and> map_of sample_booking ''status'' = None
   \<and> status (fst (post_bookings (sample_env 1700000000000 7) sample_booking empty_db)) = 200
   \<and> bookingsCollection (snd (post_bookings (sample_env 1700000000000 7) sample_booking empty_db)) =
       [[(''vehicleId'', BJson (JStr ''v1'')), (''userEmail'', BJson (JStr ''a@x.com'')),
         (''startDate'', BDate (Ms 1704067200000)), (''endDate'', BDate (Ms 1704412800000)),
         (''status'', BJson (JStr ''pending'')), (''createdAt'', BDate (Ms 1700000000000)),
         (''_id'', BObjectId 7)]]
   \<and> bookingsCollection (snd (post_bookings (sample_env 1700000000000 7)
        [(''vehicleId'', JStr ''v1''), (''userEmail'', JStr ''a@x.com''),
         (''startDate'', JStr ''2024-01-01''), (''endDate'', JStr ''soon'')] empty_db)) =
       [[(''vehicleId'', BJson (JStr ''v1'')), (''userEmail'', BJson (JStr ''a@x.com'')),
         (''startDate'', BDate (Ms 1704067200000)), (''endDate'', BDate (Ms 0)),
         (''status'', BJson (JStr ''pending'')), (''createdAt'', BDate (Ms 1700000000000)),
         (''_id'', BObjectId 7)]]
   \<and> status (fst (post_bookings_server_js (sample_env 1700000000000 7) sample_booking empty_db)) = 200
   \<and> map_of (hd (bookingsCollection
        (snd (post_bookings_server_js (sample_env 1700000000000 7) sample_booking empty_db))))
        ''status'' = Some (BJson (JStr ''pending''))
   \<and> map_of (hd (bookingsCollection
        (snd (post_bookings_server_js (sample_env 1700000000000 7) sample_booking empty_db))))
        ''createdAt'' = Some (BDate (Ms 1700000000000))"
  using post_bookings_stored_document [of sample_booking "sample_env 1700000000000 7" empty_db]
    post_bookings_stored_document [of
      "[(''vehicleId'', JStr ''v1''), (''userEmail'', JStr ''a@x.com''),
        (''startDate'', JStr ''2024-01-01''), (''endDate'', JStr ''soon'')]"
      "sample_env 1700000000000 7" empty_db]
  by (simp add: booking_defs store_defs sample_defs sample_booking_def json_ok_def)

section \<open>No conflict enforcement between bookings\<close>









section \<open>The two copies of booking creation\<close>

lemma insert_error_same_id:
  "\<forall>c. db_failure e c = None \<Longrightarrow> bget (serialized d) ''_id'' = bget (serialized d') ''_id'' \<Longrightarrow>
   (insert_error e k d s = None) = (insert_error e k d' s = None)"
  by (simp add: insert_error_def)

text \<open>
  Claim C10, as amended. The claim says the two copies of \<open>POST /bookings\<close> store the
  same document, with \<open>startDate\<close> and \<open>endDate\<close> in the same representation. They do
  not: \<open>part_000\<close> replaces the two fields by \<open>Date\<close> objects and \<open>server.js\<close> stores them
  as received. What holds, for every request that passes the presence check and when
  no persistence call fails for a reason outside the program: if the \<open>Date\<close> constructor
  throws on neither field, the two copies give the same response and leave the same
  vehicles, both store a document or neither does, and the two stored documents agree
  on every field other than \<open>startDate\<close> and \<open>endDate\<close>, which are the dates built from
  the request's values in \<open>part_000\<close> (the epoch where the \<open>Date\<close> is invalid) and the
  request's values themselves in \<open>server.js\<close>; if the constructor throws, \<open>part_000\<close>
  answers 400 and stores nothing.
\<close>

theorem copies_differ_in_dates:
  assumes "\<forall>k\<in>set [''vehicleId'', ''userEmail'', ''startDate'', ''endDate'']. truthy (map_of b k)"
    and "\<forall>c. db_failure e c = None"
  shows "(new_Date (Date_parse e) (map_of b ''startDate'') \<noteq> None
          \<and> new_Date (Date_parse e) (map_of b ''endDate'') \<noteq> None \<longrightarrow>
            fst (post_bookings e b s) = fst (post_bookings_server_js e b s)
          \<and> vehiclesCollection (snd (post_bookings e b s)) =
              vehiclesCollection (snd (post_bookings_server_js e b s))
          \<and> (status (fst (post_bookings e b s)) \<noteq> 200 \<longrightarrow>
                bookingsCollection (snd (post_bookings e b s)) = bookingsCollection s
              \<and> bookingsCollection (snd (post_bookings_server_js e b s)) = bookingsCollection s)
          \<and> (status (fst (post_bookings e b s)) = 200 \<longrightarrow>
               (\<exists>d d'. bookingsCollection (snd (post_bookings e b s)) = bookingsCollection s @ [d]
                  \<and> bookingsCollection (snd (post_bookings_server_js e b s)) =
                      bookingsCollection s @ [d']
                  \<and> (\<forall>k. k \<noteq> ''startDate'' \<and> k \<noteq> ''endDate'' \<longrightarrow> map_of d k = map_of d' k)
                  \<and> map_of d ''startDate'' =
                      map_option (\<lambda>t. BDate (case t of NaN \<Rightarrow> Ms 0 | Ms n \<Rightarrow> Ms n))
                        (new_Date (Date_parse e) (map_of b ''startDate''))
                  \<and> map_of d' ''startDate'' = map_option BJson (map_of b ''startDate'')
                  \<and> map_of d ''endDate'' =
                      map_option (\<lambda>t. BDate (case t of NaN \<Rightarrow> Ms 0 | Ms n \<Rightarrow> Ms n))
                        (new_Date (Date_parse e) (map_of b ''endDate''))
                  \<and> map_of d' ''endDate'' = map_option BJson (map_of b ''endDate''))))
    \<and> (new_Date (Date_parse e) (map_of b ''startDate'') = None
       \<or> new_Date (Date_parse e) (map_of b ''endDate'') = None \<longrightarrow>
          post_bookings e b s =
            (\<lparr>status = 400,
              payload = Obj [(''success'', BJson (JBool False)),
                             (''error'', BJson (JStr ''Invalid date format for startDate or endDate''))]\<rparr>,
             s))"
proof (cases "normalized e b")
  case None
  have req: "bookings_required b"
    using assms(1) by (simp only: required_fields)
  from None have "new_Date (Date_parse e) (map_of b ''startDate'') = None
       \<or> new_Date (Date_parse e) (map_of b ''endDate'') = None"
    by (auto simp: normalized_def jget_def split: option.splits)
  then show ?thesis
    by (auto simp: post_bookings_thrown[OF req None] json_error_def)
next
  case (Some d0)
  have req: "bookings_required b"
    using assms(1) by (simp only: required_fields)
  from Some obtain t1 t2 where
    t1: "new_Date (Date_parse e) (jget b ''startDate'') = Some t1"
    and t2: "new_Date (Date_parse e) (jget b ''endDate'') = Some t2"
    and d0: "d0 = bset ''endDate'' (BDate t2) (bset ''startDate'' (BDate t1) (as_doc b))"
    by (auto simp: normalized_Some)
  have t: "new_Date (Date_parse e) (map_of b ''startDate'') = Some t1"
    "new_Date (Date_parse e) (map_of b ''endDate'') = Some t2"
    using t1 t2 by (simp_all add: jget_def)
  let ?h = "with_id e (stamp e b d0)" and ?d' = "with_id e (stamp e b (as_doc b))"
  let ?d = "serialized ?h"
  note stored = stored_booking[OF t1 t2 d0] and stored' = stored_booking_server_js[of e b]
  have same_id: "bget ?d ''_id'' = bget (serialized ?d') ''_id''"
    using stored[of "''_id''"] stored'[of "''_id''"] by (simp add: serialized_server_doc)
  have handed: "bget ?h ''_id'' = bget ?d' ''_id''"
    by (rule handed_booking_id[OF d0])
  have other: "\<forall>k. k \<noteq> ''startDate'' \<and> k \<noteq> ''endDate'' \<longrightarrow> map_of ?d k = map_of ?d' k"
  proof (intro allI impI)
    fix k :: string
    assume "k \<noteq> ''startDate'' \<and> k \<noteq> ''endDate''"
    then show "map_of ?d k = map_of ?d' k"
      using stored[of k] stored'[of k] by (simp add: bget_def)
  qed
  have dates:
    "map_of ?d ''startDate'' = Some (BDate (case t1 of NaN \<Rightarrow> Ms 0 | Ms n \<Rightarrow> Ms n))"
    "map_of ?d ''endDate'' = Some (BDate (case t2 of NaN \<Rightarrow> Ms 0 | Ms n \<Rightarrow> Ms n))"
    "map_of ?d' ''startDate'' = map_option BJson (map_of b ''startDate'')"
    "map_of ?d' ''endDate'' = map_option BJson (map_of b ''endDate'')"
    using stored[of "''startDate''"] stored[of "''endDate''"]
      stored'[of "''startDate''"] stored'[of "''endDate''"]
    by (simp_all add: bget_def jget_def)
  show ?thesis
  proof (cases "insert_error e Bookings ?h s")
    case ok: None
    then have ok': "insert_error e Bookings ?d' s = None"
      using insert_error_same_id[OF assms(2) same_id, of Bookings s] by simp
    show ?thesis
      using handed other dates t
      by (simp add: post_bookings_accepted[OF req Some ok]
          post_bookings_server_js_accepted[OF req ok'])
  next
    case refused: (Some m)
    then have "insert_error e Bookings ?d' s \<noteq> None"
      using insert_error_same_id[OF assms(2) same_id, of Bookings s] by auto
    then obtain m' where refused': "insert_error e Bookings ?d' s = Some m'"
      by auto
    show ?thesis
      using t
      by (simp add: post_bookings_refused[OF req Some refused]
          post_bookings_server_js_refused[OF req refused'])
  qed
qed

text \<open>
  Counterexample to claim C10 as stated: on the request
  \<open>{vehicleId: "v1", userEmail: "a@x.com", startDate: "2024-01-01", endDate: "2024-01-05"}\<close>
  and the empty store, \<open>part_000\<close> stores \<open>startDate\<close> and \<open>endDate\<close> as dates and
  \<open>server.js\<close> stores them as the strings, so the two copies leave different stores.
\<close>

theorem copies_store_different_dates:
  "truthy (map_of sample_booking ''vehicleId'') \<and> truthy (map_of sample_booking ''userEmail'')
   \<and> truthy (map_of sample_booking ''startDate'') \<and> truthy (map_of sample_booking ''endDate'')
   \<and> bookingsCollection (snd (post_bookings (sample_env 1700000000000 7) sample_booking empty_db)) =
       [[(''vehicleId'', BJson (JStr ''v1'')), (''userEmail'', BJson (JStr ''a@x.com'')),
         (''startDate'', BDate (Ms 1704067200000)), (''endDate'', BDate (Ms 1704412800000)),
         (''status'', BJson (JStr ''pending'')), (''createdAt'', BDate (Ms 1700000000000)),
         (''_id'', BObjectId 7)]]
   \<and> bookingsCollection
        (snd (post_bookings_server_js (sample_env 1700000000000 7) sample_booking empty_db)) =
       [[(''vehicleId'', BJson (JStr ''v1'')), (''userEmail'', BJson (JStr ''a@x.com'')),
         (''startDate'', BJson (JStr ''2024-01-01'')), (''endDate'', BJson (JStr ''2024-01-05'')),
         (''status'', BJson (JStr ''pending'')), (''createdAt'', BDate (Ms 1700000000000)),
         (''_id'', BObjectId 7)]]
   \<and> snd (post_bookings (sample_env 1700000000000 7) sample_booking empty_db)
      \<noteq> snd (post_bookings_server_js (sample_env 1700000000000 7) sample_booking empty_db)"
  by (simp add: booking_defs store_defs sample_defs sample_booking_def)

text \<open>The amended statement at that request, at one whose \<open>startDate\<close> does not parse,
  and at one whose \<open>startDate\<close> is the object \<open>{toString: 1}\<close>, on which the \<open>Date\<close>
  constructor throws.\<close>

theorem copies_differ_in_dates_witness:
  "truthy (map_of sample_booking ''vehicleId'') \<and> truthy (map_of sample_booking ''userEmail'')
   \<and> truthy (map_of sample_booking ''startDate'') \<and> truthy (map_of sample_booking ''endDate'')
   \<and> new_Date sample_parse (map_of sample_booking ''startDate'') = Some (Ms 1704067200000)
   \<and> new_Date sample_parse (map_of sample_booking ''endDate'') = Some (Ms 1704412800000)
   \<and> fst (post_bookings (sample_env 1700000000000 7) sample_booking empty_db) =
       \<lparr>status = 200,
        payload = Obj [(''success'', BJson (JBool True)),
                       (''message'', BJson (JStr ''Booking created successfully'')),
                       (''bookingId'', BObjectId 7)]\<rparr>
   \<and> fst (post_bookings_server_js (sample_env 1700000000000 7) sample_booking empty_db) =
       \<lparr>status = 200,
        payload = Obj [(''success'', BJson (JBool True)),
                       (''message'', BJson (JStr ''Booking created successfully'')),
                       (''bookingId'', BObjectId 7)]\<rparr>
   \<and> map_of (hd (bookingsCollection
        (snd (post_bookings (sample_env 1700000000000 7) sample_booking empty_db)))) ''endDate''
      = Some (BDate (Ms 1704412800000))
   \<and> map_of (hd (bookingsCollection
        (snd (post_bookings_server_js (sample_env 1700000000000 7) sample_booking empty_db))))
        ''endDate''
      = Some (BJson (JStr ''2024-01-05''))
   \<and> new_Date sample_parse (Some (JStr ''soon'')) = Some NaN
   \<and> map_of (hd (bookingsCollection
        (snd (post_bookings (sample_env 1700000000000 7)
          [(''vehicleId'', JStr ''v1''), (''userEmail'', JStr ''a@x.com''),
           (''startDate'', JStr ''soon''), (''endDate'', JStr ''2024-01-05'')] empty_db))))
        ''startDate''
      = Some (BDate (Ms 0))
   \<and> map_of (hd (bookingsCollection
        (snd (post_bookings_server_js (sample_env 1700000000000 7)
          [(''vehicleId'', JStr ''v1''), (''userEmail'', JStr ''a@x.com''),
           (''startDate'', JStr ''soon''), (''endDate'', JStr ''2024-01-05'')] empty_db))))
        ''startDate''
      = Some (BJson (JStr ''soon''))
   \<and> truthy (Some (JObj [(''toString'', JNum 1)]))
   \<and> new_Date sample_parse (Some (JObj [(''toString'', JNum 1)])) = None
   \<and> post_bookings (sample_env 1700000000000 7)
        [(''vehicleId'', JStr ''v1''), (''userEmail'', JStr ''a@x.com''),
         (''startDate'', JObj [(''toString'', JNum 1)]), (''endDate'', JStr ''2024-01-05'')] empty_db =
      (\<lparr>status = 400,
        payload = Obj [(''success'', BJson (JBool False)),
                       (''error'', BJson (JStr ''Invalid date format for startDate or endDate''))]\<rparr>,
       \<lparr>vehiclesCollection = [], bookingsCollection = [], calls = []\<rparr>)"
  using copies_differ_in_dates [of sample_booking "sample_env 1700000000000 7" empty_db]
    copies_differ_in_dates [of "[(''vehicleId'', JStr ''v1''), (''userEmail'', JStr ''a@x.com''),
         (''startDate'', JStr ''soon''), (''endDate'', JStr ''2024-01-05'')]"
      "sample_env 1700000000000 7" empty_db]
    copies_differ_in_dates [of "[(''vehicleId'', JStr ''v1''), (''userEmail'', JStr ''a@x.com''),
         (''startDate'', JObj [(''toString'', JNum 1)]), (''endDate'', JStr ''2024-01-05'')]"
      "sample_env 1700000000000 7" empty_db]
  by (simp add: booking_defs store_defs sample_defs sample_booking_def json_ok_def json_error_def)

section \<open>Failure responses\<close>






lemma with_id_relabel [simp]:
  "with_id (e\<lparr>db_failure := g\<rparr>) d = with_id e d"
  by (simp add: with_id_def)








end
